theory Spec2Isabelle
  imports Complex_Main
begin

section \<open>Numbers and small JavaScript idioms\<close>

text \<open>
  A JavaScript \<open>number\<close> is a double. Where a computation can leave the finite range
  (the technical indicators, which sum and square prices of any size) a number is a
  \<open>jsnum\<close>: a finite value, one of the two infinities, or \<open>NaN\<close>, and every operation
  follows the language on them; a finite result that is too large for a double becomes an
  infinity. Rounding of finite results and the sign of zero are not modelled. Elsewhere
  (prices of the market data, confidences, draws) a number is a real.
  Each call of \<open>Math.random()\<close> is an explicit argument (a draw), which the
  language places in the half-open interval from 0 to 1.
\<close>

definition num_or :: "real \<Rightarrow> real \<Rightarrow> real" where
  \<comment> \<open>\<open>x || d\<close> on numbers: zero is the falsy number\<close>
  "num_or x d = (if x = 0 then d else x)"

definition js_round :: "real \<Rightarrow> real" where
  \<comment> \<open>\<open>Math.round\<close>: the nearest integer, a half goes up\<close>
  "js_round x = of_int \<lfloor>x + 1 / 2\<rfloor>"

definition js_floor :: "real \<Rightarrow> int" where
  "js_floor x = \<lfloor>x\<rfloor>"

definition slice_last :: "nat \<Rightarrow> 'a list \<Rightarrow> 'a list" where
  \<comment> \<open>\<open>xs.slice(-k)\<close> for a positive \<open>k\<close>: the last \<open>k\<close> elements, the whole array when it is shorter\<close>
  "slice_last k xs = drop (length xs - k) xs"

definition is_draw :: "real \<Rightarrow> bool" where
  \<comment> \<open>the range of \<open>Math.random()\<close>\<close>
  "is_draw r \<longleftrightarrow> 0 \<le> r \<and> r < 1"

fun digits_of :: "nat \<Rightarrow> string" where
  "digits_of n =
     (if n < 10 then [char_of (48 + n)]
      else digits_of (n div 10) @ [char_of (48 + n mod 10)])"

definition toFixed2 :: "real \<Rightarrow> string" where
  \<comment> \<open>\<open>x.toFixed(2)\<close>: two decimals, a half rounds away from zero, the sign of a negative \<open>x\<close> is kept\<close>
  "toFixed2 x =
     (let n = nat \<lfloor>\<bar>x\<bar> * 100 + 1 / 2\<rfloor>
      in (if x < 0 then ''-'' else '''') @ digits_of (n div 100) @ ''.'' @
         [char_of (48 + (n mod 100) div 10), char_of (48 + n mod 10)])"

subsection \<open>Doubles with overflow\<close>

datatype jsnum = Finite real | PosInf | NegInf | NaN

definition overflow_threshold :: real where
  \<comment> \<open>half an ulp above the largest double: from here on a result rounds to an infinity\<close>
  "overflow_threshold = 2 ^ 1024 - 2 ^ 970"

definition fin :: "real \<Rightarrow> jsnum" where
  \<comment> \<open>the double of an exact result\<close>
  "fin x =
     (if overflow_threshold \<le> x then PosInf
      else if x \<le> - overflow_threshold then NegInf
      else Finite x)"

fun jneg :: "jsnum \<Rightarrow> jsnum" where
  "jneg (Finite a) = Finite (- a)"
| "jneg PosInf = NegInf"
| "jneg NegInf = PosInf"
| "jneg NaN = NaN"

fun jadd :: "jsnum \<Rightarrow> jsnum \<Rightarrow> jsnum" where
  "jadd (Finite a) (Finite b) = fin (a + b)"
| "jadd NaN y = NaN"
| "jadd x NaN = NaN"
| "jadd PosInf NegInf = NaN"
| "jadd NegInf PosInf = NaN"
| "jadd PosInf y = PosInf"
| "jadd x PosInf = PosInf"
| "jadd NegInf y = NegInf"
| "jadd x NegInf = NegInf"

definition jsub :: "jsnum \<Rightarrow> jsnum \<Rightarrow> jsnum" where
  "jsub x y = jadd x (jneg y)"

fun jabs :: "jsnum \<Rightarrow> jsnum" where
  "jabs (Finite a) = Finite \<bar>a\<bar>"
| "jabs PosInf = PosInf"
| "jabs NegInf = PosInf"
| "jabs NaN = NaN"

fun jmul :: "jsnum \<Rightarrow> jsnum \<Rightarrow> jsnum" where
  "jmul (Finite a) (Finite b) = fin (a * b)"
| "jmul NaN y = NaN"
| "jmul x NaN = NaN"
| "jmul (Finite a) PosInf = (if a = 0 then NaN else if 0 < a then PosInf else NegInf)"
| "jmul (Finite a) NegInf = (if a = 0 then NaN else if 0 < a then NegInf else PosInf)"
| "jmul PosInf (Finite b) = (if b = 0 then NaN else if 0 < b then PosInf else NegInf)"
| "jmul NegInf (Finite b) = (if b = 0 then NaN else if 0 < b then NegInf else PosInf)"
| "jmul PosInf PosInf = PosInf"
| "jmul PosInf NegInf = NegInf"
| "jmul NegInf PosInf = NegInf"
| "jmul NegInf NegInf = PosInf"

fun jdiv :: "jsnum \<Rightarrow> jsnum \<Rightarrow> jsnum" where
  "jdiv (Finite a) (Finite b) =
     (if b = 0 then (if a = 0 then NaN else if 0 < a then PosInf else NegInf)
      else fin (a / b))"
| "jdiv NaN y = NaN"
| "jdiv x NaN = NaN"
| "jdiv (Finite a) y = Finite 0"
| "jdiv PosInf (Finite b) = (if 0 \<le> b then PosInf else NegInf)"
| "jdiv NegInf (Finite b) = (if 0 \<le> b then NegInf else PosInf)"
| "jdiv x y = NaN"

fun jsqrt :: "jsnum \<Rightarrow> jsnum" where
  \<comment> \<open>\<open>Math.sqrt\<close>\<close>
  "jsqrt (Finite a) = (if a < 0 then NaN else Finite (sqrt a))"
| "jsqrt PosInf = PosInf"
| "jsqrt x = NaN"

fun jlt :: "jsnum \<Rightarrow> jsnum \<Rightarrow> bool" where
  \<comment> \<open>\<open>x < y\<close>: false when either side is \<open>NaN\<close>\<close>
  "jlt (Finite a) (Finite b) = (a < b)"
| "jlt NaN y = False"
| "jlt x NaN = False"
| "jlt x NegInf = False"
| "jlt PosInf y = False"
| "jlt x y = True"

definition jle :: "jsnum \<Rightarrow> jsnum \<Rightarrow> bool" where
  "jle x y \<longleftrightarrow> x \<noteq> NaN \<and> y \<noteq> NaN \<and> \<not> jlt y x"

fun jor :: "jsnum \<Rightarrow> jsnum \<Rightarrow> jsnum" where
  \<comment> \<open>\<open>x || d\<close>: zero and \<open>NaN\<close> are the falsy numbers\<close>
  "jor (Finite a) d = (if a = 0 then d else Finite a)"
| "jor NaN d = d"
| "jor x d = x"

fun jround :: "jsnum \<Rightarrow> jsnum" where
  \<comment> \<open>\<open>Math.round\<close>\<close>
  "jround (Finite a) = Finite (of_int \<lfloor>a + 1 / 2\<rfloor>)"
| "jround x = x"

fun nonneg_num :: "jsnum \<Rightarrow> bool" where
  \<comment> \<open>a double that is zero or more, plus infinity included\<close>
  "nonneg_num (Finite r) = (0 \<le> r \<and> r < overflow_threshold)"
| "nonneg_num PosInf = True"
| "nonneg_num x = False"

section \<open>Data feeds and technical indicators (ConsensusAnalyticsDashboard.tsx)\<close>

record data_point =
  point_timestamp :: string
  pvalue :: real

record DataFeed =
  feed_id :: string
  name :: string
  current_value :: real
  timestamp :: string
  trend :: string
  historical :: "data_point list option"

record TechnicalIndicators =
  rsi :: jsnum
  macd :: string
  ma50 :: jsnum
  ma200 :: jsnum
  bollingerUpper :: jsnum
  bollingerLower :: jsnum
  volumeChange :: string

definition value_or_0 :: "data_point \<Rightarrow> jsnum" where
  \<comment> \<open>\<open>d?.value || 0\<close>, the value read as a double\<close>
  "value_or_0 d = jor (fin (pvalue d)) (Finite 0)"

definition priceChanges :: "data_point list \<Rightarrow> jsnum list" where
  "priceChanges h =
     map (\<lambda>i. jsub (value_or_0 (h ! i)) (value_or_0 (h ! (i - 1)))) [1..<length h]"

definition gains :: "data_point list \<Rightarrow> jsnum" where
  "gains h =
     foldl (\<lambda>s change. jadd s change) (Finite 0)
       (filter (\<lambda>change. jlt (Finite 0) change) (priceChanges h))"

definition losses :: "data_point list \<Rightarrow> jsnum" where
  "losses h =
     foldl (\<lambda>s change. jadd s (jabs change)) (Finite 0)
       (filter (\<lambda>change. jlt change (Finite 0)) (priceChanges h))"

definition avgGain :: "data_point list \<Rightarrow> jsnum" where
  "avgGain h = jor (jdiv (gains h) (Finite (real (length h)))) (Finite 0)"

definition avgLoss :: "data_point list \<Rightarrow> jsnum" where
  \<comment> \<open>the source's guard against a zero denominator\<close>
  "avgLoss h = jor (jdiv (losses h) (Finite (real (length h)))) (Finite (1 / 100))"

definition rs :: "data_point list \<Rightarrow> jsnum" where
  "rs h = jdiv (avgGain h) (avgLoss h)"

definition rsi_raw :: "data_point list \<Rightarrow> jsnum" where
  "rsi_raw h = jsub (Finite 100) (jdiv (Finite 100) (jadd (Finite 1) (rs h)))"

definition sum_values :: "data_point list \<Rightarrow> jsnum" where
  \<comment> \<open>\<open>.reduce((sum, data) => sum + (data?.value || 0), 0)\<close>\<close>
  "sum_values ds = foldl (\<lambda>s d. jadd s (value_or_0 d)) (Finite 0) ds"

definition moving_average :: "nat \<Rightarrow> data_point list \<Rightarrow> jsnum" where
  \<comment> \<open>\<open>ma50\<close> and \<open>ma200\<close>: the divisor is the number of points really taken\<close>
  "moving_average k h =
     jdiv (sum_values (slice_last (min k (length h)) h)) (Finite (real (min k (length h))))"

definition prices :: "data_point list \<Rightarrow> jsnum list" where
  "prices h = map value_or_0 (slice_last 20 h)"

definition sma20 :: "data_point list \<Rightarrow> jsnum" where
  "sma20 h =
     jdiv (foldl (\<lambda>s price. jadd s price) (Finite 0) (prices h))
       (Finite (real (length (prices h))))"

definition squaredDifferences :: "data_point list \<Rightarrow> jsnum list" where
  \<comment> \<open>\<open>Math.pow(price - sma20, 2)\<close>, the square as a product\<close>
  "squaredDifferences h = map (\<lambda>price. jmul (jsub price (sma20 h)) (jsub price (sma20 h))) (prices h)"

definition variance :: "data_point list \<Rightarrow> jsnum" where
  "variance h =
     jdiv (foldl (\<lambda>s squared. jadd s squared) (Finite 0) (squaredDifferences h))
       (Finite (real (length (squaredDifferences h))))"

definition stdDev :: "data_point list \<Rightarrow> jsnum" where
  "stdDev h = jsqrt (variance h)"

definition shortMA :: "data_point list \<Rightarrow> jsnum" where
  "shortMA h = jdiv (sum_values (slice_last 12 h)) (Finite 12)"

definition longMA :: "data_point list \<Rightarrow> jsnum" where
  "longMA h = jdiv (sum_values (slice_last 26 h)) (Finite 26)"

definition macd_label :: "data_point list \<Rightarrow> string" where
  "macd_label h =
     (if jlt (longMA h) (shortMA h) then ''bullish''
      else if jlt (shortMA h) (longMA h) then ''bearish'' else ''neutral'')"

definition calculateTechnicalIndicatorsFromHistorical :: "DataFeed \<Rightarrow> real \<Rightarrow> TechnicalIndicators" where
  \<comment> \<open>the value handed to \<open>setTechnicalIndicators\<close>; \<open>r\<close> is the draw behind the volume placeholder\<close>
  "calculateTechnicalIndicatorsFromHistorical feed r =
     (let h = (case historical feed of None \<Rightarrow> [] | Some xs \<Rightarrow> xs) in
      if length h < 5 then
        \<lparr>rsi = Finite 50, macd = ''neutral'',
         ma50 = fin (current_value feed), ma200 = fin (current_value feed),
         bollingerUpper = jmul (fin (current_value feed)) (Finite (105 / 100)),
         bollingerLower = jmul (fin (current_value feed)) (Finite (95 / 100)),
         volumeChange = ''0%''\<rparr>
      else
        \<lparr>rsi = jround (rsi_raw h), macd = macd_label h,
         ma50 = moving_average 50 h, ma200 = moving_average 200 h,
         bollingerUpper = jadd (sma20 h) (jmul (stdDev h) (Finite 2)),
         bollingerLower = jsub (sma20 h) (jmul (stdDev h) (Finite 2)),
         volumeChange = toFixed2 (r * 20 - 10) @ ''%''\<rparr>)"

text \<open>
  The reference notions the indicator claims are stated against: the arithmetic mean, the
  population standard deviation, and the simple moving average over the last \<open>k\<close> points
  (over all of them when the series is shorter).
\<close>

definition mean :: "real list \<Rightarrow> real" where
  "mean xs = sum_list xs / real (length xs)"


definition last_prices :: "nat \<Rightarrow> data_point list \<Rightarrow> real list" where
  "last_prices k h = map pvalue (drop (length h - k) h)"

definition simple_moving_average :: "nat \<Rightarrow> data_point list \<Rightarrow> real" where
  "simple_moving_average k h = mean (last_prices k h)"

definition series_of :: "DataFeed \<Rightarrow> data_point list" where
  "series_of feed = (case historical feed of None \<Rightarrow> [] | Some xs \<Rightarrow> xs)"

definition feed_of_values :: "real list \<Rightarrow> DataFeed" where
  \<comment> \<open>a test feed carrying the given prices, oldest first\<close>
  "feed_of_values vs =
     \<lparr>feed_id = ''btc'', name = ''Btc'', current_value = last (0 # vs), timestamp = '''',
      trend = ''stable'',
      historical = Some (map (\<lambda>v. \<lparr>point_timestamp = '''', pvalue = v\<rparr>) vs)\<rparr>"

definition large_price :: real where
  \<comment> \<open>a price near the top of the double range, for the overflow inputs\<close>
  "large_price = 10 ^ 308"

section \<open>Strings (queryParser.ts)\<close>

text \<open>
  A string is a list of 8-bit characters and case mapping is that of ASCII, which is what
  \<open>toLowerCase\<close> and \<open>toUpperCase\<close> do to the letters A to Z; every other character is
  left as it is and is no word character of a regular expression.
\<close>

definition lower_char :: "char \<Rightarrow> char" where
  "lower_char c = (let n = (of_char c :: nat) in if 65 \<le> n \<and> n \<le> 90 then char_of (n + 32) else c)"

definition upper_char :: "char \<Rightarrow> char" where
  "upper_char c = (let n = (of_char c :: nat) in if 97 \<le> n \<and> n \<le> 122 then char_of (n - 32) else c)"

definition toLowerCase :: "string \<Rightarrow> string" where
  "toLowerCase s = map lower_char s"

definition toUpperCase :: "string \<Rightarrow> string" where
  "toUpperCase s = map upper_char s"

fun starts_with :: "string \<Rightarrow> string \<Rightarrow> bool" where
  "starts_with text [] = True"
| "starts_with [] (p # ps) = False"
| "starts_with (c # cs) (p # ps) = (c = p \<and> starts_with cs ps)"

fun str_includes :: "string \<Rightarrow> string \<Rightarrow> bool" where
  \<comment> \<open>\<open>text.includes(pat)\<close>\<close>
  "str_includes [] pat = (pat = [])"
| "str_includes (c # cs) pat = (starts_with (c # cs) pat \<or> str_includes cs pat)"

definition is_word_char :: "char \<Rightarrow> bool" where
  \<comment> \<open>the class \<open>\w\<close>: a digit, a letter or the underscore\<close>
  "is_word_char c =
     (let n = (of_char c :: nat)
      in (48 \<le> n \<and> n \<le> 57) \<or> (65 \<le> n \<and> n \<le> 90) \<or> n = 95 \<or> (97 \<le> n \<and> n \<le> 122))"

fun word_side :: "char option \<Rightarrow> bool" where
  "word_side None = False"
| "word_side (Some c) = is_word_char c"

definition word_boundary :: "char option \<Rightarrow> char option \<Rightarrow> bool" where
  \<comment> \<open>the assertion \<open>\b\<close> between two neighbours, \<open>None\<close> being an end of the input\<close>
  "word_boundary a b \<longleftrightarrow> word_side a \<noteq> word_side b"

fun first_char :: "string \<Rightarrow> char option" where
  "first_char [] = None"
| "first_char (c # cs) = Some c"

definition match_here :: "char option \<Rightarrow> string \<Rightarrow> string \<Rightarrow> bool" where
  \<comment> \<open>\<open>\bpat\b\<close> with flag \<open>i\<close> matches at the head of \<open>text\<close>, whose left neighbour is \<open>prev\<close>\<close>
  "match_here prev text pat \<longleftrightarrow>
     length pat \<le> length text
     \<and> map lower_char (take (length pat) text) = map lower_char pat
     \<and> word_boundary prev (first_char text)
     \<and> word_boundary (if pat = [] then prev else Some (last (take (length pat) text)))
          (first_char (drop (length pat) text))"

fun regex_test_from :: "char option \<Rightarrow> string \<Rightarrow> string \<Rightarrow> bool" where
  "regex_test_from prev [] pat = match_here prev [] pat"
| "regex_test_from prev (c # cs) pat =
     (match_here prev (c # cs) pat \<or> regex_test_from (Some c) cs pat)"

definition regex_word_test :: "string \<Rightarrow> string \<Rightarrow> bool" where
  \<comment> \<open>\<open>new RegExp(`\\b${pat}\\b`, 'i').test(text)\<close> for a pattern without metacharacters\<close>
  "regex_word_test pat text = regex_test_from None text pat"

definition commonAssets :: "string list" where
  "commonAssets =
     [''bitcoin'', ''btc'', ''ethereum'', ''eth'', ''solana'', ''sol'', ''cardano'', ''ada'',
      ''binance coin'', ''bnb'', ''ripple'', ''xrp'', ''dogecoin'', ''doge'', ''polkadot'', ''dot'',
      ''avalanche'', ''avax'', ''litecoin'', ''ltc'', ''chainlink'', ''link'', ''polygon'', ''matic'',
      ''uniswap'', ''uni'', ''stellar'', ''xlm'', ''cosmos'', ''atom'', ''near protocol'', ''near'',
      ''algorand'', ''algo'', ''tron'', ''trx'',
      ''s&p 500'', ''nasdaq'', ''dow jones'', ''dji'',
      ''gold'', ''silver'', ''crude oil'', ''natural gas'',
      ''tesla'', ''apple'', ''microsoft'', ''amazon'', ''google'', ''meta'']"

definition symbolMap :: "(string \<times> string) list" where
  "symbolMap =
     [(''btc'', ''Bitcoin''), (''bitcoin'', ''Bitcoin''),
      (''eth'', ''Ethereum''), (''ethereum'', ''Ethereum''),
      (''sol'', ''Solana''), (''solana'', ''Solana''),
      (''ada'', ''Cardano''), (''cardano'', ''Cardano''),
      (''bnb'', ''BNB''), (''binance coin'', ''BNB''),
      (''xrp'', ''XRP''), (''ripple'', ''XRP''),
      (''doge'', ''Dogecoin''), (''dogecoin'', ''Dogecoin''),
      (''dot'', ''Polkadot''), (''polkadot'', ''Polkadot''),
      (''avax'', ''Avalanche''), (''avalanche'', ''Avalanche''),
      (''ltc'', ''Litecoin''), (''litecoin'', ''Litecoin''),
      (''link'', ''Chainlink''), (''chainlink'', ''Chainlink''),
      (''matic'', ''Polygon''), (''polygon'', ''Polygon''),
      (''uni'', ''Uniswap''), (''uniswap'', ''Uniswap''),
      (''xlm'', ''Stellar''), (''stellar'', ''Stellar''),
      (''atom'', ''Cosmos''), (''cosmos'', ''Cosmos''),
      (''near'', ''NEAR Protocol''), (''near protocol'', ''NEAR Protocol''),
      (''algo'', ''Algorand''), (''algorand'', ''Algorand''),
      (''trx'', ''TRON''), (''tron'', ''TRON''),
      (''nasdaq'', ''NASDAQ''), (''s&p 500'', ''S&P 500''),
      (''dow jones'', ''Dow Jones''), (''dji'', ''Dow Jones''),
      (''gold'', ''Gold''), (''silver'', ''Silver''),
      (''crude oil'', ''Crude Oil''), (''natural gas'', ''Natural Gas''),
      (''tesla'', ''Tesla''), (''apple'', ''Apple''), (''microsoft'', ''Microsoft''),
      (''amazon'', ''Amazon''), (''google'', ''Google''), (''meta'', ''Meta'')]"

definition capitalize :: "string \<Rightarrow> string" where
  \<comment> \<open>\<open>s.charAt(0).toUpperCase() + s.slice(1)\<close>\<close>
  "capitalize s = (case s of [] \<Rightarrow> [] | c # cs \<Rightarrow> upper_char c # cs)"

definition mapSymbolToName :: "string \<Rightarrow> string" where
  \<comment> \<open>\<open>symbolMap[symbol] || capitalised symbol\<close>: a missing key and an empty name both fall through\<close>
  "mapSymbolToName symbol =
     (case map_of symbolMap symbol of
        None \<Rightarrow> capitalize symbol
      | Some full \<Rightarrow> if full = [] then capitalize symbol else full)"

definition push_new :: "string list \<Rightarrow> string \<Rightarrow> string list" where
  \<comment> \<open>\<open>if (!assets.includes(fullName)) assets.push(fullName)\<close>\<close>
  "push_new assets fullName = (if fullName \<in> set assets then assets else assets @ [fullName])"

definition check_asset :: "string \<Rightarrow> string list \<Rightarrow> string \<Rightarrow> string list" where
  \<comment> \<open>one round of the loop over \<open>commonAssets\<close>\<close>
  "check_asset normalizedQuery assets asset =
     (if str_includes normalizedQuery asset then
        (if length asset \<le> 4 then
           (if regex_word_test asset normalizedQuery
            then push_new assets (mapSymbolToName (toLowerCase asset))
            else assets)
         else push_new assets (mapSymbolToName (toLowerCase asset)))
      else assets)"

definition extractAssetsFromQuery :: "string \<Rightarrow> string list" where
  "extractAssetsFromQuery query = foldl (check_asset (toLowerCase query)) [] commonAssets"

definition code_present :: "string \<Rightarrow> string \<Rightarrow> bool" where
  \<comment> \<open>the condition under which a round of the loop pushes a name\<close>
  "code_present nq asset \<longleftrightarrow> str_includes nq asset \<and> (length asset \<le> 4 \<longrightarrow> regex_word_test asset nq)"

text \<open>
  The notions the claim on the asset extraction is stated with. The canonical full name of
  each asset string is written out here, a symbol next to the full name it abbreviates,
  and so are the canonical names; neither is computed from the symbol table of the code.
  A string occurs in a text when the text splits around it; it occurs as a standalone word
  when, in such a split, no word character touches it.
\<close>

definition asset_names :: "(string \<times> string) list" where
  "asset_names =
     [(''bitcoin'', ''Bitcoin''), (''btc'', ''Bitcoin''),
      (''ethereum'', ''Ethereum''), (''eth'', ''Ethereum''),
      (''solana'', ''Solana''), (''sol'', ''Solana''),
      (''cardano'', ''Cardano''), (''ada'', ''Cardano''),
      (''binance coin'', ''BNB''), (''bnb'', ''BNB''),
      (''ripple'', ''XRP''), (''xrp'', ''XRP''),
      (''dogecoin'', ''Dogecoin''), (''doge'', ''Dogecoin''),
      (''polkadot'', ''Polkadot''), (''dot'', ''Polkadot''),
      (''avalanche'', ''Avalanche''), (''avax'', ''Avalanche''),
      (''litecoin'', ''Litecoin''), (''ltc'', ''Litecoin''),
      (''chainlink'', ''Chainlink''), (''link'', ''Chainlink''),
      (''polygon'', ''Polygon''), (''matic'', ''Polygon''),
      (''uniswap'', ''Uniswap''), (''uni'', ''Uniswap''),
      (''stellar'', ''Stellar''), (''xlm'', ''Stellar''),
      (''cosmos'', ''Cosmos''), (''atom'', ''Cosmos''),
      (''near protocol'', ''NEAR Protocol''), (''near'', ''NEAR Protocol''),
      (''algorand'', ''Algorand''), (''algo'', ''Algorand''),
      (''tron'', ''TRON''), (''trx'', ''TRON''),
      (''s&p 500'', ''S&P 500''), (''nasdaq'', ''NASDAQ''),
      (''dow jones'', ''Dow Jones''), (''dji'', ''Dow Jones''),
      (''gold'', ''Gold''), (''silver'', ''Silver''),
      (''crude oil'', ''Crude Oil''), (''natural gas'', ''Natural Gas''),
      (''tesla'', ''Tesla''), (''apple'', ''Apple''), (''microsoft'', ''Microsoft''),
      (''amazon'', ''Amazon''), (''google'', ''Google''), (''meta'', ''Meta'')]"

definition canonical_names :: "string list" where
  "canonical_names =
     [''Bitcoin'', ''Ethereum'', ''Solana'', ''Cardano'', ''BNB'', ''XRP'', ''Dogecoin'',
      ''Polkadot'', ''Avalanche'', ''Litecoin'', ''Chainlink'', ''Polygon'', ''Uniswap'',
      ''Stellar'', ''Cosmos'', ''NEAR Protocol'', ''Algorand'', ''TRON'', ''S&P 500'',
      ''NASDAQ'', ''Dow Jones'', ''Gold'', ''Silver'', ''Crude Oil'', ''Natural Gas'',
      ''Tesla'', ''Apple'', ''Microsoft'', ''Amazon'', ''Google'', ''Meta'']"

definition occurs_in :: "string \<Rightarrow> string \<Rightarrow> bool" where
  "occurs_in pat text \<longleftrightarrow> (\<exists>pre post. text = pre @ pat @ post)"

definition standalone_word_in :: "string \<Rightarrow> string \<Rightarrow> bool" where
  "standalone_word_in pat text \<longleftrightarrow>
     (\<exists>pre post. text = pre @ pat @ post
        \<and> (pre = [] \<or> \<not> is_word_char (last pre))
        \<and> (post = [] \<or> \<not> is_word_char (hd post)))"

definition asset_present :: "string \<Rightarrow> string \<Rightarrow> bool" where
  "asset_present asset text \<longleftrightarrow>
     (if length asset \<le> 4 then standalone_word_in asset text else occurs_in asset text)"

section \<open>The environment: network, randomness and the clock\<close>

text \<open>
  The program reads three things it does not compute: the answers of the network, the
  draws of \<open>Math.random()\<close> and the clock. They are arguments of the model. A draw is
  named by the place of its call; a request made in round \<open>i\<close> of a loop has its own answer.
  A thrown value is an \<open>error\<close>, and a function that can throw returns \<open>error + 'a\<close>.
\<close>

datatype error = Error string

datatype 'a response =
    NetworkFailure error
  | HttpError "string option option"
  | HttpOk "'a option"

text \<open>
  \<open>NetworkFailure e\<close>: the request itself fails with \<open>e\<close>. \<open>HttpError b\<close>: an answer whose
  status is not ok; \<open>b\<close> is its body, \<open>None\<close> when it is no JSON, else the \<open>message\<close> field if
  there is one. \<open>HttpOk b\<close>: an ok answer, \<open>b = None\<close> when the body is no JSON.
\<close>

datatype draw_site =
    HistoryDraw nat nat
  | FallbackDraw nat nat
  | FtsoDraw nat nat
  | DecisionDraw
  | ConfidenceDraw
  | TrendDraw
  | MultiplierDraw nat
  | AgreementDraw
  | ResponseDraw nat
  | VariationDraw nat

record environment =
  price_response :: "nat \<Rightarrow> string \<Rightarrow> (string \<rightharpoonup> real) response"
  history_response :: "nat \<Rightarrow> string \<Rightarrow> nat \<Rightarrow> ((real \<times> real) list option) response"
  random :: "draw_site \<Rightarrow> real"
  iso_now :: string
  iso_days_ago :: "nat \<Rightarrow> string"
  iso_hours_ago :: "nat \<Rightarrow> string"
  iso_of_millis :: "real \<Rightarrow> string"

text \<open>
  A price answer maps a coin id to its \<open>usd\<close> field; a history answer holds the \<open>prices\<close>
  field, \<open>None\<close> when it is missing or no array. The \<open>iso\<close> fields give the clock as the
  ISO strings the code stores.
\<close>

section \<open>Market data (moralisService.ts)\<close>

definition tokenSymbols :: "(string \<times> string) list" where
  "tokenSymbols =
     [(''bitcoin'', ''BTC''), (''ethereum'', ''ETH''), (''solana'', ''SOL''), (''cardano'', ''ADA''),
      (''bnb'', ''BNB''), (''xrp'', ''XRP''), (''dogecoin'', ''DOGE''), (''polkadot'', ''DOT''),
      (''avalanche'', ''AVAX''), (''litecoin'', ''LTC'')]"

definition estimatedPrices :: "(string \<times> real) list" where
  "estimatedPrices =
     [(''BTC'', 62500), (''ETH'', 3300), (''SOL'', 180), (''ADA'', 55 / 100), (''BNB'', 610),
      (''XRP'', 65 / 100), (''DOGE'', 16 / 100), (''DOT'', 79 / 10), (''AVAX'', 36), (''LTC'', 87)]"

definition baseTokenPrices :: "(string \<times> real) list" where
  "baseTokenPrices =
     [(''bitcoin'', 62500), (''btc'', 62500), (''ethereum'', 3300), (''eth'', 3300),
      (''solana'', 180), (''sol'', 180), (''cardano'', 55 / 100), (''ada'', 55 / 100),
      (''bnb'', 610), (''xrp'', 65 / 100), (''dogecoin'', 16 / 100), (''doge'', 16 / 100),
      (''polkadot'', 79 / 10), (''dot'', 79 / 10), (''avalanche'', 36), (''avax'', 36),
      (''litecoin'', 87), (''ltc'', 87)]"

definition str_or :: "string option \<Rightarrow> string \<Rightarrow> string" where
  \<comment> \<open>\<open>s || d\<close> on strings: \<open>undefined\<close> and the empty string are falsy\<close>
  "str_or s d = (case s of None \<Rightarrow> d | Some v \<Rightarrow> if v = [] then d else v)"

definition price_or :: "real option \<Rightarrow> real \<Rightarrow> real" where
  \<comment> \<open>\<open>x || d\<close> on a number that may be \<open>undefined\<close>\<close>
  "price_or x d = (case x of None \<Rightarrow> d | Some v \<Rightarrow> num_or v d)"

definition getBasePrice :: "string \<Rightarrow> real" where
  "getBasePrice token = price_or (map_of baseTokenPrices (toLowerCase token)) 100"

definition fetchTokenPrice :: "(string \<rightharpoonup> real) response \<Rightarrow> string \<Rightarrow> error + real" where
  \<comment> \<open>the \<open>try\<close> block of \<open>getTokenPrice\<close>\<close>
  "fetchTokenPrice resp token =
     (case resp of
        NetworkFailure e \<Rightarrow> Inl e
      | HttpError b \<Rightarrow> Inl (Error (''Failed to fetch from CoinGecko for '' @ token))
      | HttpOk None \<Rightarrow> Inl (Error ''Unexpected end of JSON input'')
      | HttpOk (Some data) \<Rightarrow>
          (case data (toLowerCase token) of
             None \<Rightarrow> Inl (Error (''No price found for '' @ token))
           | Some price \<Rightarrow>
               if price = 0 then Inl (Error (''No price found for '' @ token)) else Inr price))"

definition fallbackPrice :: "string \<Rightarrow> real" where
  \<comment> \<open>the \<open>catch\<close> block of \<open>getTokenPrice\<close>\<close>
  "fallbackPrice token =
     (let symbol = str_or (map_of tokenSymbols (toLowerCase token)) (toUpperCase token)
      in price_or (map_of estimatedPrices symbol) 100)"

definition getTokenPrice :: "(string \<rightharpoonup> real) response \<Rightarrow> string \<Rightarrow> error + real" where
  "getTokenPrice resp token =
     (case fetchTokenPrice resp token of
        Inr price \<Rightarrow> Inr price
      | Inl e \<Rightarrow> Inr (fallbackPrice token))"

definition fetchHistoricalPrices ::
  "environment \<Rightarrow> ((real \<times> real) list option) response \<Rightarrow> string \<Rightarrow> error + data_point list" where
  \<comment> \<open>the \<open>try\<close> block of \<open>getHistoricalPrices\<close>\<close>
  "fetchHistoricalPrices env resp token =
     (case resp of
        NetworkFailure e \<Rightarrow> Inl e
      | HttpError b \<Rightarrow> Inl (Error (''Failed to fetch historical prices for '' @ token))
      | HttpOk None \<Rightarrow> Inl (Error ''Unexpected end of JSON input'')
      | HttpOk (Some None) \<Rightarrow> Inl (Error (''Invalid historical data for '' @ token))
      | HttpOk (Some (Some ps)) \<Rightarrow>
          Inr (map (\<lambda>priceData.
                 \<lparr>point_timestamp = iso_of_millis env (fst priceData), pvalue = snd priceData\<rparr>) ps))"

definition mockHistoricalData :: "environment \<Rightarrow> nat \<Rightarrow> string \<Rightarrow> nat \<Rightarrow> data_point list" where
  \<comment> \<open>the \<open>catch\<close> block of \<open>getHistoricalPrices\<close>: \<open>i\<close> runs from \<open>days\<close> down to 0\<close>
  "mockHistoricalData env k token days =
     map (\<lambda>i.
        let volatility = 3 / 100;
            randomChange = 1 + ((random env (HistoryDraw k i) - 1 / 2) * volatility * 2);
            price = getBasePrice token * (1 + (real (days - i) / real days) * (1 / 10)) * randomChange
        in \<lparr>point_timestamp = iso_days_ago env i, pvalue = price\<rparr>)
       (rev [0..<Suc days])"

definition getHistoricalPrices ::
  "environment \<Rightarrow> nat \<Rightarrow> string \<Rightarrow> nat \<Rightarrow> error + data_point list" where
  "getHistoricalPrices env k token days =
     (case fetchHistoricalPrices env (history_response env k (toLowerCase token) days) token of
        Inr points \<Rightarrow> Inr points
      | Inl e \<Rightarrow> Inr (mockHistoricalData env k token days))"

definition point_value :: "data_point \<Rightarrow> real" where
  \<comment> \<open>\<open>d?.value || 0\<close>\<close>
  "point_value d = num_or (pvalue d) 0"

definition first_value :: "data_point list \<Rightarrow> real" where
  \<comment> \<open>\<open>xs[0]?.value || 0\<close>\<close>
  "first_value xs = (case xs of [] \<Rightarrow> 0 | x # _ \<Rightarrow> point_value x)"

definition last_value :: "data_point list \<Rightarrow> real" where
  \<comment> \<open>\<open>xs[xs.length - 1]?.value || 0\<close>\<close>
  "last_value xs = (if xs = [] then 0 else point_value (last xs))"

definition percentChange :: "data_point list \<Rightarrow> real" where
  "percentChange xs =
     (let recent = last_value xs; past = first_value xs
      in if past > 0 then ((recent - past) / past) * 100 else 0)"

definition trend_of_change :: "real \<Rightarrow> string" where
  "trend_of_change pc = (if pc > 5 then ''up'' else if pc < - 5 then ''down'' else ''stable'')"

definition display_name :: "string \<Rightarrow> string" where
  \<comment> \<open>\<open>asset.charAt(0).toUpperCase() + asset.slice(1).toLowerCase()\<close>\<close>
  "display_name asset = (case asset of [] \<Rightarrow> [] | c # cs \<Rightarrow> upper_char c # toLowerCase cs)"

definition createFallbackDataFeed :: "environment \<Rightarrow> nat \<Rightarrow> string \<Rightarrow> DataFeed" where
  "createFallbackDataFeed env k asset =
     (let basePrice = getBasePrice asset;
          hist = map (\<lambda>i.
                   let volatility = 2 / 100;
                       randomChange = 1 + ((random env (FallbackDraw k i) - 1 / 2) * volatility * 2);
                       price = basePrice * (1 + (real (14 - i) / 14) * (1 / 10)) * randomChange
                   in \<lparr>point_timestamp = iso_days_ago env i, pvalue = price\<rparr>)
                  (rev [0..<15])
      in \<lparr>feed_id = toLowerCase asset, name = display_name asset, current_value = basePrice,
          timestamp = iso_now env, trend = trend_of_change (percentChange hist),
          historical = Some hist\<rparr>)"

definition build_feed ::
  "environment \<Rightarrow> nat \<Rightarrow> string \<Rightarrow> error + real \<Rightarrow> error + data_point list \<Rightarrow> DataFeed" where
  \<comment> \<open>the body of the loop of \<open>getMarketDataFeeds\<close>, given what the two awaited calls gave:
      a thrown error lands in the inner \<open>catch\<close>\<close>
  "build_feed env k asset priceResult historyResult =
     (case priceResult of
        Inl e \<Rightarrow> createFallbackDataFeed env k asset
      | Inr currentPrice \<Rightarrow>
          (case historyResult of
             Inl e \<Rightarrow> createFallbackDataFeed env k asset
           | Inr historicalPrices \<Rightarrow>
               \<lparr>feed_id = toLowerCase asset, name = display_name asset,
                current_value = currentPrice, timestamp = iso_now env,
                trend = (if length historicalPrices > 5
                         then trend_of_change (percentChange historicalPrices) else ''stable''),
                historical = Some historicalPrices\<rparr>))"

definition process_asset :: "environment \<Rightarrow> nat \<Rightarrow> string \<Rightarrow> DataFeed" where
  "process_asset env k asset =
     build_feed env k asset
       (getTokenPrice (price_response env k (toLowerCase asset)) asset)
       (getHistoricalPrices env k asset 14)"

fun process_assets :: "environment \<Rightarrow> nat \<Rightarrow> string list \<Rightarrow> DataFeed list \<Rightarrow> error + DataFeed list" where
  \<comment> \<open>the loop, from round \<open>k\<close> on, pushing onto \<open>dataFeeds\<close>\<close>
  "process_assets env k [] dataFeeds = Inr dataFeeds"
| "process_assets env k (asset # rest) dataFeeds =
     process_assets env (Suc k) rest (dataFeeds @ [process_asset env k asset])"

definition getMarketDataFeeds :: "environment \<Rightarrow> string list \<Rightarrow> DataFeed list" where
  "getMarketDataFeeds env assets =
     (case process_assets env 0 assets [] of
        Inr dataFeeds \<Rightarrow> dataFeeds
      | Inl e \<Rightarrow> map (\<lambda>(k, asset). createFallbackDataFeed env k asset) (enumerate 0 assets))"

definition trend_values :: "string list" where
  "trend_values = [''up'', ''down'', ''stable'']"

definition failing_environment :: environment where
  \<comment> \<open>a test environment: every request fails, every draw is a half\<close>
  "failing_environment =
     \<lparr>price_response = (\<lambda>k t. NetworkFailure (Error ''Failed to fetch'')),
      history_response = (\<lambda>k t d. NetworkFailure (Error ''Failed to fetch'')),
      random = (\<lambda>s. 1 / 2),
      iso_now = ''2025-01-15T00:00:00.000Z'',
      iso_days_ago = (\<lambda>i. ''day''), iso_hours_ago = (\<lambda>i. ''hour''),
      iso_of_millis = (\<lambda>t. ''instant'')\<rparr>"

section \<open>The FTSO client and the prediction client (api.ts, predictionService.ts)\<close>

datatype 'a axios_result = AxiosFailure error | AxiosResponse 'a

text \<open>
  \<open>apiClient.get\<close> throws on a failed request and on a status outside 2xx
  (\<open>AxiosFailure\<close>); otherwise the code returns \<open>response.data\<close> (\<open>AxiosResponse\<close>).
\<close>

record HistoricalDataPoint =
  hp_timestamp :: string
  price :: real

record FTSOFeed =
  ftso_id :: string
  ftso_name :: string
  current_price :: real
  previous_price :: real
  change_24h :: real
  updated_at :: string
  historical_data :: "HistoricalDataPoint list"

definition round_decimals :: "nat \<Rightarrow> real \<Rightarrow> real" where
  \<comment> \<open>\<open>parseFloat(x.toFixed(d))\<close>\<close>
  "round_decimals d x = sgn x * of_int \<lfloor>\<bar>x\<bar> * 10 ^ d + 1 / 2\<rfloor> / 10 ^ d"

definition generateMockHistoricalData ::
  "environment \<Rightarrow> nat \<Rightarrow> real \<Rightarrow> real \<Rightarrow> HistoricalDataPoint list" where
  \<comment> \<open>24 hourly points, returned oldest first; \<open>f\<close> numbers the call\<close>
  "generateMockHistoricalData env f lo hi =
     rev (map (\<lambda>i.
            let randomValue = lo + random env (FtsoDraw f i) * (hi - lo)
            in \<lparr>hp_timestamp = iso_hours_ago env i,
                price = round_decimals (if lo < 1 then 4 else 2) randomValue\<rparr>)
          [0..<24])"

definition mockFeeds :: "environment \<Rightarrow> FTSOFeed list" where
  "mockFeeds env =
     [\<lparr>ftso_id = ''ftso-xrp-usd'', ftso_name = ''XRP/USD'', current_price = 5923 / 10000,
       previous_price = 5738 / 10000, change_24h = 322 / 100, updated_at = iso_now env,
       historical_data = generateMockHistoricalData env 0 (57 / 100) (60 / 100)\<rparr>,
      \<lparr>ftso_id = ''ftso-flr-usd'', ftso_name = ''FLR/USD'', current_price = 243 / 10000,
       previous_price = 251 / 10000, change_24h = - (319 / 100), updated_at = iso_now env,
       historical_data = generateMockHistoricalData env 1 (23 / 1000) (26 / 1000)\<rparr>,
      \<lparr>ftso_id = ''ftso-ltc-usd'', ftso_name = ''LTC/USD'', current_price = 6792 / 100,
       previous_price = 6547 / 100, change_24h = 374 / 100, updated_at = iso_now env,
       historical_data = generateMockHistoricalData env 2 64 68\<rparr>,
      \<lparr>ftso_id = ''ftso-btc-usd'', ftso_name = ''BTC/USD'', current_price = 2745312 / 100,
       previous_price = 2798135 / 100, change_24h = - (189 / 100), updated_at = iso_now env,
       historical_data = generateMockHistoricalData env 3 27000 28000\<rparr>,
      \<lparr>ftso_id = ''ftso-eth-usd'', ftso_name = ''ETH/USD'', current_price = 184327 / 100,
       previous_price = 180153 / 100, change_24h = 232 / 100, updated_at = iso_now env,
       historical_data = generateMockHistoricalData env 4 1800 1850\<rparr>]"

definition getAllFeeds :: "environment \<Rightarrow> FTSOFeed list axios_result \<Rightarrow> error + FTSOFeed list" where
  "getAllFeeds env res =
     (case res of
        AxiosResponse data \<Rightarrow> Inr data
      | AxiosFailure e \<Rightarrow> Inr (mockFeeds env))"

definition getFeedById :: "FTSOFeed option axios_result \<Rightarrow> string \<Rightarrow> error + FTSOFeed option" where
  \<comment> \<open>the result type of the source is \<open>FTSOFeed | null\<close>\<close>
  "getFeedById res feedId =
     (case res of
        AxiosResponse data \<Rightarrow> Inr data
      | AxiosFailure e \<Rightarrow> Inr None)"

definition requestAnalysis :: "'a response \<Rightarrow> string \<Rightarrow> error + 'a" where
  \<comment> \<open>the \<open>try\<close> block of \<open>analyzePrediction\<close>\<close>
  "requestAnalysis resp question =
     (case resp of
        NetworkFailure e \<Rightarrow> Inl e
      | HttpError None \<Rightarrow> Inl (Error ''Unexpected end of JSON input'')
      | HttpError (Some message) \<Rightarrow> Inl (Error (str_or message ''Failed to analyze prediction''))
      | HttpOk None \<Rightarrow> Inl (Error ''Unexpected end of JSON input'')
      | HttpOk (Some data) \<Rightarrow> Inr data)"

definition analyzePrediction :: "'a response \<Rightarrow> string \<Rightarrow> error + 'a" where
  \<comment> \<open>the \<open>catch\<close> block logs the error and throws it again\<close>
  "analyzePrediction resp question =
     (case requestAnalysis resp question of
        Inr data \<Rightarrow> Inr data
      | Inl e \<Rightarrow> Inl e)"

section \<open>The consensus of the prediction-submit handler (landing.tsx)\<close>

text \<open>
  The handler's result is the value it hands to \<open>setPredictionData\<close>. The reasoning text,
  the evidence lists and the summary of the processed query are display strings that no
  decision or number depends on; they are left out of the records. A decision that the
  code may leave \<open>undefined\<close> is a \<open>string option\<close>.
\<close>

record ModelResponse =
  decision :: "string option"
  response_confidence :: real

record Verification =
  model_agreement :: real
  model_responses :: "(string \<times> ModelResponse) list"

record PricePrediction =
  pp_asset :: string
  pp_current_price :: real
  predicted_price :: real
  predicted_range :: "real list"
  timeframe :: string
  model_predictions :: "(string \<times> real) list"
  confidence_intervals :: "(string \<times> real list) list"

record ModelComparisonItem =
  item_name :: string
  prediction :: "string option"
  item_confidence :: real
  key_factor :: string

record VerificationResult =
  final_decision :: string
  confidence :: real
  verification :: Verification
  price_prediction :: "PricePrediction option"

record PredictionData =
  question :: string
  verificationResult :: VerificationResult
  dataFeeds :: "DataFeed list"
  modelComparison :: "ModelComparisonItem list"

definition array_get :: "'a list \<Rightarrow> int \<Rightarrow> 'a option" where
  \<comment> \<open>\<open>xs[i]\<close> for an integer \<open>i\<close>: \<open>undefined\<close> outside the array\<close>
  "array_get xs i = (if 0 \<le> i \<and> nat i < length xs then Some (xs ! nat i) else None)"

definition round2 :: "real \<Rightarrow> real" where
  \<comment> \<open>\<open>Math.round(x * 100) / 100\<close>\<close>
  "round2 x = js_round (x * 100) / 100"

definition trendMultiplier :: "string \<Rightarrow> real \<Rightarrow> real" where
  "trendMultiplier trnd r =
     (if trnd = ''up'' then 12 / 10 + r * (4 / 10)
      else if trnd = ''down'' then 7 / 10 + r * (2 / 10)
      else 9 / 10 + r * (2 / 10))"

definition modelMultipliers :: "real \<Rightarrow> (draw_site \<Rightarrow> real) \<Rightarrow> (string \<times> real) list" where
  "modelMultipliers baseMultiplier rand =
     [(''DeepSeek R1 Zero'', baseMultiplier * (9 / 10 + rand (MultiplierDraw 0) * (2 / 10))),
      (''Gemini Flash Lite 2.0'', baseMultiplier * (85 / 100 + rand (MultiplierDraw 1) * (3 / 10))),
      (''Mistral Small 3'', baseMultiplier * (8 / 10 + rand (MultiplierDraw 2) * (4 / 10))),
      (''QwQ 32B'', baseMultiplier * (95 / 100 + rand (MultiplierDraw 3) * (2 / 10))),
      (''Llama 3.3 70B'', baseMultiplier * (1 + rand (MultiplierDraw 4) * (1 / 10)))]"

definition decisions :: "string list" where
  "decisions = [''LIKELY'', ''SOMEWHAT LIKELY'', ''UNCERTAIN'', ''UNLIKELY'', ''HIGHLY LIKELY'']"

definition finalDecision :: "string \<Rightarrow> bool \<Rightarrow> real \<Rightarrow> string option" where
  \<comment> \<open>each branch draws once; \<open>r\<close> is the draw of the branch taken\<close>
  "finalDecision trnd hasPriceQuestion r =
     (if trnd = ''up'' \<and> hasPriceQuestion then
        Some (if r > 3 / 10 then ''LIKELY'' else ''HIGHLY LIKELY'')
      else if trnd = ''down'' \<and> hasPriceQuestion then
        Some (if r > 3 / 10 then ''UNLIKELY'' else ''SOMEWHAT LIKELY'')
      else array_get decisions (js_floor (r * real (length decisions))))"

definition overall_confidence :: "real \<Rightarrow> real" where
  \<comment> \<open>\<open>0.6 + (Math.random() * 0.35)\<close>\<close>
  "overall_confidence r = 6 / 10 + r * (35 / 100)"

definition generateVerificationDetails ::
  "string option \<Rightarrow> real \<Rightarrow> string \<Rightarrow> string \<Rightarrow> (draw_site \<Rightarrow> real) \<Rightarrow> Verification" where
  "generateVerificationDetails fd conf assetName trnd rand =
     \<lparr>model_agreement = conf - 5 / 100 + rand AgreementDraw * (1 / 10),
      model_responses =
        [(''DeepSeek R1 Zero'',
          \<lparr>decision = fd,
           response_confidence = conf - 15 / 100 + rand (ResponseDraw 0) * (3 / 10)\<rparr>),
         (''Gemini Flash Lite 2.0'',
          \<lparr>decision = (if fd = Some ''LIKELY'' then Some ''SOMEWHAT LIKELY''
                       else if fd = Some ''UNLIKELY'' then Some ''UNCERTAIN'' else fd),
           response_confidence = conf - 2 / 10 + rand (ResponseDraw 1) * (25 / 100)\<rparr>),
         (''Mistral Small 3'',
          \<lparr>decision = (if fd = Some ''HIGHLY LIKELY'' then Some ''LIKELY''
                       else if fd = Some ''UNLIKELY'' then Some ''SOMEWHAT LIKELY''
                       else Some ''UNCERTAIN''),
           response_confidence = conf - 25 / 100 + rand (ResponseDraw 2) * (2 / 10)\<rparr>),
         (''QwQ 32B'',
          \<lparr>decision = fd,
           response_confidence = conf - 5 / 100 + rand (ResponseDraw 3) * (15 / 100)\<rparr>),
         (''Llama 3.3 70B'',
          \<lparr>decision = (if fd = Some ''LIKELY'' then Some ''HIGHLY LIKELY''
                       else if fd = Some ''UNLIKELY'' then Some ''UNLIKELY'' else fd),
           response_confidence = conf + rand (ResponseDraw 4) * (15 / 100)\<rparr>)]\<rparr>"

definition modelNames :: "string list" where
  "modelNames =
     [''TrendWatcher AI'', ''DeepMarket Analyzer'', ''Quantum Forecast'',
      ''NeuralPrice Predictor'', ''OnChain Metrics AI'', ''MacroTrend Evaluator'']"

definition keyFactors :: "string list" where
  "keyFactors =
     [''Price action and moving averages'', ''On-chain transaction volume'',
      ''Institutional capital flows'', ''Social sentiment analysis'',
      ''Network growth metrics'', ''Macro-economic correlations'']"

definition predictions :: "string \<Rightarrow> string list" where
  "predictions dec =
     (if dec = ''LIKELY'' \<or> dec = ''HIGHLY LIKELY'' then
        [''LIKELY'', ''SOMEWHAT LIKELY'', ''HIGHLY LIKELY'', ''LIKELY'', ''UNCERTAIN'', ''LIKELY'']
      else if dec = ''UNLIKELY'' \<or> dec = ''SOMEWHAT UNLIKELY'' then
        [''UNLIKELY'', ''SOMEWHAT UNLIKELY'', ''UNCERTAIN'', ''UNLIKELY'', ''SOMEWHAT LIKELY'',
         ''UNLIKELY'']
      else
        [''UNCERTAIN'', ''SOMEWHAT LIKELY'', ''SOMEWHAT UNLIKELY'', ''UNCERTAIN'', ''LIKELY'',
         ''UNCERTAIN''])"

definition baseConfidence :: "string \<Rightarrow> real" where
  "baseConfidence dec =
     (if dec = ''HIGHLY LIKELY'' then 85
      else if dec = ''LIKELY'' then 75
      else if dec = ''SOMEWHAT LIKELY'' then 65
      else if dec = ''UNCERTAIN'' then 50
      else if dec = ''SOMEWHAT UNLIKELY'' then 35
      else if dec = ''UNLIKELY'' then 25
      else 50)"

definition generateModelComparison ::
  "string \<Rightarrow> string \<Rightarrow> string \<Rightarrow> (draw_site \<Rightarrow> real) \<Rightarrow> ModelComparisonItem list" where
  "generateModelComparison dec assetName trnd rand =
     map (\<lambda>(index, nm).
        let confidenceVariation = real_of_int (js_floor (rand (VariationDraw index) * 15)) - 7;
            adjustedConfidence = min (max (baseConfidence dec + confidenceVariation) 10) 95
        in \<lparr>item_name = nm,
            prediction = array_get (predictions dec) (int index),
            item_confidence = adjustedConfidence,
            key_factor = str_or (array_get keyFactors (int index)) ''''\<rparr>)
       (enumerate 0 modelNames)"

definition consensus ::
  "string \<Rightarrow> bool \<Rightarrow> string \<Rightarrow> real \<Rightarrow> string \<Rightarrow> (draw_site \<Rightarrow> real)
     \<Rightarrow> VerificationResult \<times> ModelComparisonItem list" where
  \<comment> \<open>the handler from the trend multiplier on: the verification result it stores and the
      model comparison\<close>
  "consensus trnd hasPriceQuestion primaryAsset currentPrice tframe rand =
     (let baseMultiplier = trendMultiplier trnd (rand TrendDraw);
          predictedPrice = round2 (currentPrice * baseMultiplier);
          modelPredictions =
            map (\<lambda>(model, multiplier). (model, round2 (currentPrice * multiplier)))
              (modelMultipliers baseMultiplier rand);
          confidenceIntervals =
            [(''90%'', [round2 (predictedPrice * (75 / 100)), round2 (predictedPrice * (125 / 100))]),
             (''70%'', [round2 (predictedPrice * (85 / 100)), round2 (predictedPrice * (115 / 100))]),
             (''50%'', [round2 (predictedPrice * (95 / 100)), round2 (predictedPrice * (105 / 100))])];
          fd = finalDecision trnd hasPriceQuestion (rand DecisionDraw);
          conf = overall_confidence (rand ConfidenceDraw);
          assetName = (if primaryAsset = [] then ''Bitcoin'' else primaryAsset)
      in (\<lparr>final_decision = str_or fd ''UNCERTAIN'',
           confidence = conf,
           verification =
             generateVerificationDetails fd conf assetName
               (if trnd = [] then ''stable'' else trnd) rand,
           price_prediction =
             (if hasPriceQuestion then
                Some \<lparr>pp_asset = assetName, pp_current_price = currentPrice,
                      predicted_price = predictedPrice,
                      predicted_range =
                        [round2 (predictedPrice * (9 / 10)), round2 (predictedPrice * (11 / 10))],
                      timeframe = tframe,
                      model_predictions = modelPredictions,
                      confidence_intervals = confidenceIntervals\<rparr>
              else None)\<rparr>,
          generateModelComparison (str_or fd ''UNCERTAIN'') assetName trnd rand))"

definition timeframeMatches :: "(string \<times> string) list" where
  "timeframeMatches =
     [(''2025'', ''End of 2025''), (''2026'', ''End of 2026''), (''next year'', ''Next Year''),
      (''month'', ''Next Month''), (''week'', ''Next Week''), (''day'', ''Next Day'')]"

definition find_timeframe :: "string \<Rightarrow> string" where
  \<comment> \<open>the first key of \<open>timeframeMatches\<close> the lower-cased question includes\<close>
  "find_timeframe q =
     (case find (\<lambda>(key, v). str_includes (toLowerCase q) (toLowerCase key)) timeframeMatches of
        None \<Rightarrow> ''Undefined Timeframe''
      | Some (key, v) \<Rightarrow> v)"

definition is_space :: "char \<Rightarrow> bool" where
  \<comment> \<open>the ASCII white space that \<open>trim\<close> removes\<close>
  "is_space c = (let n = (of_char c :: nat) in n = 32 \<or> (9 \<le> n \<and> n \<le> 13))"

definition hasPriceQuestion :: "string \<Rightarrow> bool" where
  "hasPriceQuestion predictionQuestion \<longleftrightarrow>
     str_includes (toLowerCase predictionQuestion) ''price''
     \<or> str_includes (toLowerCase predictionQuestion) ''value''
     \<or> str_includes (toLowerCase predictionQuestion) ''worth''"

definition requested_assets :: "string \<Rightarrow> string list" where
  \<comment> \<open>the argument of \<open>getMarketDataFeeds\<close>\<close>
  "requested_assets predictionQuestion =
     (let identifiedAssets = extractAssetsFromQuery predictionQuestion
      in if length identifiedAssets > 0 then identifiedAssets
         else [''Bitcoin'', ''Ethereum'', ''Solana''])"

definition primaryAsset :: "string \<Rightarrow> string" where
  "primaryAsset predictionQuestion =
     (case extractAssetsFromQuery predictionQuestion of [] \<Rightarrow> ''Bitcoin'' | a # _ \<Rightarrow> a)"

definition primaryAssetData :: "DataFeed list \<Rightarrow> string \<Rightarrow> DataFeed option" where
  "primaryAssetData feeds primary =
     find (\<lambda>feed. toLowerCase (name feed) = toLowerCase primary
                   \<or> str_includes (toLowerCase (feed_id feed)) (toLowerCase primary)) feeds"

definition currentPrice :: "DataFeed option \<Rightarrow> real" where
  \<comment> \<open>\<open>primaryAssetData?.current_value || 0\<close>\<close>
  "currentPrice d = (case d of None \<Rightarrow> 0 | Some feed \<Rightarrow> num_or (current_value feed) 0)"

definition primary_trend :: "DataFeed option \<Rightarrow> string" where
  \<comment> \<open>\<open>primaryAssetData?.trend || "stable"\<close>\<close>
  "primary_trend d = (case d of None \<Rightarrow> ''stable'' | Some feed \<Rightarrow> str_or (Some (trend feed)) ''stable'')"

definition handlePredictionSubmit :: "environment \<Rightarrow> string \<Rightarrow> PredictionData option" where
  \<comment> \<open>\<open>None\<close>: the early return on a blank question, which stores nothing\<close>
  "handlePredictionSubmit env predictionQuestion =
     (if list_all is_space predictionQuestion then None
      else
        let feeds = getMarketDataFeeds env (requested_assets predictionQuestion);
            d = primaryAssetData feeds (primaryAsset predictionQuestion);
            result = consensus (primary_trend d) (hasPriceQuestion predictionQuestion)
                       (primaryAsset predictionQuestion) (currentPrice d)
                       (find_timeframe predictionQuestion) (random env)
        in Some \<lparr>question = predictionQuestion,
                 verificationResult = fst result,
                 dataFeeds = feeds,
                 modelComparison = snd result\<rparr>)"

definition submitted_trend :: "environment \<Rightarrow> string \<Rightarrow> string" where
  \<comment> \<open>the trend the handler works with\<close>
  "submitted_trend env predictionQuestion =
     primary_trend (primaryAssetData (getMarketDataFeeds env (requested_assets predictionQuestion))
                      (primaryAsset predictionQuestion))"

definition test_draws :: "real \<Rightarrow> real \<Rightarrow> draw_site \<Rightarrow> real" where
  \<comment> \<open>test draws: \<open>d\<close> for the decision, \<open>c\<close> everywhere else\<close>
  "test_draws d c site = (if site = DecisionDraw then d else c)"

definition response_confidences :: "PredictionData \<Rightarrow> real list" where
  \<comment> \<open>the per-model confidences of \<open>model_responses\<close>, in the order of the source\<close>
  "response_confidences pd =
     map (\<lambda>(model, r). response_confidence r)
       (model_responses (verification (verificationResult pd)))"

definition response_decisions :: "PredictionData \<Rightarrow> string option list" where
  "response_decisions pd =
     map (\<lambda>(model, r). decision r) (model_responses (verification (verificationResult pd)))"

definition submitted_decision :: "environment \<Rightarrow> string \<Rightarrow> string option" where
  \<comment> \<open>the final decision the handler stores, if it stores a result\<close>
  "submitted_decision env predictionQuestion =
     map_option (\<lambda>pd. final_decision (verificationResult pd))
       (handlePredictionSubmit env predictionQuestion)"

definition submitted_confidence :: "environment \<Rightarrow> string \<Rightarrow> real option" where
  "submitted_confidence env predictionQuestion =
     map_option (\<lambda>pd. confidence (verificationResult pd))
       (handlePredictionSubmit env predictionQuestion)"

definition submitted_response_confidences :: "environment \<Rightarrow> string \<Rightarrow> real list option" where
  "submitted_response_confidences env predictionQuestion =
     map_option response_confidences (handlePredictionSubmit env predictionQuestion)"

fun confidence_site :: "draw_site \<Rightarrow> bool" where
  \<comment> \<open>the draws that go into a confidence value\<close>
  "confidence_site ConfidenceDraw = True"
| "confidence_site AgreementDraw = True"
| "confidence_site (ResponseDraw n) = True"
| "confidence_site (VariationDraw n) = True"
| "confidence_site site = False"

definition test_environment :: "real \<Rightarrow> real \<Rightarrow> environment" where
  \<comment> \<open>every request fails; the decision draw is \<open>d\<close>, every other draw \<open>c\<close>\<close>
  "test_environment d c = failing_environment\<lparr>random := test_draws d c\<rparr>"

text \<open>
  The fixed set of decision labels of the specification, and the property of a draw
  function that every draw is in the range of \<open>Math.random()\<close>.
\<close>

definition decision_labels :: "string list" where
  "decision_labels =
     [''HIGHLY LIKELY'', ''LIKELY'', ''SOMEWHAT LIKELY'', ''UNCERTAIN'', ''SOMEWHAT UNLIKELY'',
      ''UNLIKELY'']"

definition is_label :: "string option \<Rightarrow> bool" where
  "is_label l \<longleftrightarrow> (case l of None \<Rightarrow> False | Some v \<Rightarrow> v \<in> set decision_labels)"

definition draws_in_range :: "(draw_site \<Rightarrow> real) \<Rightarrow> bool" where
  "draws_in_range rand \<longleftrightarrow> (\<forall>site. is_draw (rand site))"

section \<open>Lemmas on doubles and on the indicator sums\<close>

lemma threshold_large: "10 ^ 308 < overflow_threshold"
  by (simp add: overflow_threshold_def)

lemma threshold_below: "overflow_threshold < 2 * 10 ^ 308"
  by (simp add: overflow_threshold_def)

lemma threshold_gt_100: "100 < overflow_threshold"
  using threshold_large by (rule order.strict_trans [rotated]) simp

lemma fin_small: "\<bar>x\<bar> \<le> 100 \<Longrightarrow> fin x = Finite x"
  using threshold_gt_100 by (auto simp: fin_def)

lemma fin_eq_Finite: "fin x = Finite y \<longleftrightarrow> y = x \<and> - overflow_threshold < x \<and> x < overflow_threshold"
  by (auto simp: fin_def)

lemma fin_not_NaN [simp]: "fin x \<noteq> NaN"
  by (simp add: fin_def)

lemma fin_nonneg: "0 \<le> x \<Longrightarrow> fin x = PosInf \<or> (fin x = Finite x \<and> x < overflow_threshold)"
  using threshold_gt_100 by (auto simp: fin_def)

lemma jadd_eq_Finite:
  "jadd x y = Finite r \<longleftrightarrow>
     (\<exists>a b. x = Finite a \<and> y = Finite b \<and> r = a + b
        \<and> - overflow_threshold < a + b \<and> a + b < overflow_threshold)"
  by (cases x; cases y) (auto simp: fin_eq_Finite)

lemma jsub_eq_Finite:
  "jsub x y = Finite r \<longleftrightarrow>
     (\<exists>a b. x = Finite a \<and> y = Finite b \<and> r = a - b
        \<and> - overflow_threshold < a - b \<and> a - b < overflow_threshold)"
  unfolding jsub_def jadd_eq_Finite by (cases y) auto













lemma threshold_pos: "0 < overflow_threshold"
  using threshold_gt_100 by simp

lemma jadd_nonneg: "nonneg_num x \<Longrightarrow> nonneg_num y \<Longrightarrow> nonneg_num (jadd x y)"
  using threshold_pos by (cases x; cases y) (auto simp: fin_def)

lemma foldl_jadd_nonneg:
  assumes "nonneg_num a" and "\<And>x. x \<in> set xs \<Longrightarrow> nonneg_num (f x)"
  shows "nonneg_num (foldl (\<lambda>s x. jadd s (f x)) a xs)"
  using assms by (induction xs arbitrary: a) (simp_all add: jadd_nonneg)

lemma priceChanges_bounded:
  assumes "c \<in> set (priceChanges h)" and "c = Finite r"
  shows "- overflow_threshold < r \<and> r < overflow_threshold"
proof -
  obtain x y where "c = jsub x y"
    using assms(1) by (auto simp: priceChanges_def)
  then have "jsub x y = Finite r"
    using assms(2) by simp
  then show ?thesis
    unfolding jsub_eq_Finite by auto
qed

lemma gains_nonneg: "nonneg_num (gains h)"
  unfolding gains_def
proof (rule foldl_jadd_nonneg [of _ _ "\<lambda>x. x"])
  show "nonneg_num (Finite 0)"
    using threshold_pos by simp
next
  fix c assume "c \<in> set (filter (\<lambda>change. jlt (Finite 0) change) (priceChanges h))"
  then have m: "c \<in> set (priceChanges h)" and p: "jlt (Finite 0) c"
    by simp_all
  show "nonneg_num c"
  proof (cases c)
    case (Finite r)
    then show ?thesis
      using p priceChanges_bounded [OF m Finite] by simp
  qed (use p in simp_all)
qed

lemma losses_nonneg: "nonneg_num (losses h)"
  unfolding losses_def
proof (rule foldl_jadd_nonneg)
  show "nonneg_num (Finite 0)"
    using threshold_pos by simp
next
  fix c assume "c \<in> set (filter (\<lambda>change. jlt change (Finite 0)) (priceChanges h))"
  then have m: "c \<in> set (priceChanges h)" and p: "jlt c (Finite 0)"
    by simp_all
  show "nonneg_num (jabs c)"
  proof (cases c)
    case (Finite r)
    then show ?thesis
      using p priceChanges_bounded [OF m Finite] by simp
  qed (use p in simp_all)
qed

lemma jdiv_nonneg_by_count:
  assumes "nonneg_num x" and "1 \<le> n"
  shows "(x = PosInf \<and> jdiv x (Finite n) = PosInf)
         \<or> (\<exists>a. x = Finite a \<and> jdiv x (Finite n) = Finite (a / n) \<and> 0 \<le> a / n
               \<and> a / n < overflow_threshold)"
proof (cases x)
  case (Finite a)
  then have a: "0 \<le> a" "a < overflow_threshold"
    using assms(1) by simp_all
  have "a * 1 \<le> a * n"
    using assms(2) a(1) by (rule mult_left_mono)
  then have "a / n \<le> a"
    using assms(2) by (simp add: field_simps)
  then have "a / n < overflow_threshold" "0 \<le> a / n"
    using a assms(2) by simp_all
  then show ?thesis
    using Finite assms(2) threshold_pos by (simp add: fin_def)
qed (use assms in simp_all)

lemma avgGain_cases:
  assumes "1 \<le> length h"
  shows "(gains h = PosInf \<and> avgGain h = PosInf)
         \<or> (gains h \<noteq> PosInf \<and> (\<exists>a. avgGain h = Finite a \<and> 0 \<le> a \<and> a < overflow_threshold))"
proof -
  have n: "1 \<le> real (length h)"
    using assms by simp
  from jdiv_nonneg_by_count [OF gains_nonneg n, of h] show ?thesis
  proof (elim disjE exE conjE)
    assume "gains h = PosInf" "jdiv (gains h) (Finite (real (length h))) = PosInf"
    then show ?thesis by (simp add: avgGain_def)
  next
    fix a assume "gains h = Finite a"
      and d: "jdiv (gains h) (Finite (real (length h))) = Finite (a / real (length h))"
      and b: "0 \<le> a / real (length h)" "a / real (length h) < overflow_threshold"
    then show ?thesis
      using threshold_pos by (simp add: avgGain_def d del: jdiv.simps)
  qed
qed

lemma avgLoss_cases:
  assumes "1 \<le> length h"
  shows "(losses h = PosInf \<and> avgLoss h = PosInf)
         \<or> (losses h \<noteq> PosInf \<and> (\<exists>b. avgLoss h = Finite b \<and> 0 < b \<and> b < overflow_threshold))"
proof -
  have n: "1 \<le> real (length h)"
    using assms by simp
  from jdiv_nonneg_by_count [OF losses_nonneg n, of h] show ?thesis
  proof (elim disjE exE conjE)
    assume "losses h = PosInf" "jdiv (losses h) (Finite (real (length h))) = PosInf"
    then show ?thesis by (simp add: avgLoss_def)
  next
    fix a assume "losses h = Finite a"
      and d: "jdiv (losses h) (Finite (real (length h))) = Finite (a / real (length h))"
      and b: "0 \<le> a / real (length h)" "a / real (length h) < overflow_threshold"
    define q where "q = a / real (length h)"
    have l: "losses h \<noteq> PosInf"
      using \<open>losses h = Finite a\<close> by simp
    have e: "avgLoss h = jor (Finite q) (Finite (1 / 100))"
      unfolding avgLoss_def d q_def ..
    have bq: "0 \<le> q" "q < overflow_threshold"
      using b by (simp_all only: q_def)
    show ?thesis
    proof (cases "q = 0")
      case True
      have "(1 / 100 :: real) < overflow_threshold"
        using threshold_gt_100 by simp
      then have "avgLoss h = Finite (1 / 100) \<and> (0 :: real) < 1 / 100
                 \<and> (1 / 100 :: real) < overflow_threshold"
        using e True by simp
      then show ?thesis using l by blast
    next
      case False
      then have "avgLoss h = Finite q \<and> 0 < q \<and> q < overflow_threshold"
        using e bq by simp
      then show ?thesis using l by blast
    qed
  qed
qed

lemma rsi_tail_Finite:
  assumes "0 \<le> x"
  shows "\<exists>r. jsub (Finite 100) (jdiv (Finite 100) (jadd (Finite 1) (fin x))) = Finite r
             \<and> 0 \<le> r \<and> r \<le> 100"
proof -
  consider "fin x = PosInf" | "fin x = Finite x" "fin (1 + x) = PosInf"
    | "fin x = Finite x" "fin (1 + x) = Finite (1 + x)"
    using fin_nonneg [OF assms] fin_nonneg [of "1 + x"] assms by fastforce
  then show ?thesis
  proof cases
    case 1
    then show ?thesis by (simp add: jsub_def fin_small)
  next
    case 2
    then show ?thesis by (simp add: jsub_def fin_small)
  next
    case 3
    have "0 < 100 / (1 + x)" "100 / (1 + x) \<le> 100"
      using assms by (simp_all add: field_simps)
    then have "fin (100 / (1 + x)) = Finite (100 / (1 + x))"
      "fin (100 - 100 / (1 + x)) = Finite (100 - 100 / (1 + x))"
      by (simp_all add: fin_small)
    then show ?thesis
      using 3 assms \<open>0 < 100 / (1 + x)\<close> \<open>100 / (1 + x) \<le> 100\<close>
      by (simp add: jsub_def)
  qed
qed

lemma rsi_raw_cases:
  assumes "1 \<le> length h"
  shows "(gains h = PosInf \<and> losses h = PosInf \<and> rsi_raw h = NaN)
         \<or> (\<not> (gains h = PosInf \<and> losses h = PosInf)
             \<and> (\<exists>r. rsi_raw h = Finite r \<and> 0 \<le> r \<and> r \<le> 100))"
proof -
  consider (both) "gains h = PosInf" "avgGain h = PosInf" "losses h = PosInf" "avgLoss h = PosInf"
    | (gain) b where "gains h = PosInf" "avgGain h = PosInf" "losses h \<noteq> PosInf"
        "avgLoss h = Finite b" "0 < b"
    | (loss) a where "gains h \<noteq> PosInf" "avgGain h = Finite a" "losses h = PosInf"
        "avgLoss h = PosInf"
    | (none) a b where "gains h \<noteq> PosInf" "avgGain h = Finite a" "0 \<le> a"
        "losses h \<noteq> PosInf" "avgLoss h = Finite b" "0 < b"
    using avgGain_cases [OF assms] avgLoss_cases [OF assms] by blast
  then show ?thesis
  proof cases
    case both
    then show ?thesis by (simp add: rsi_raw_def rs_def jsub_def)
  next
    case gain
    then show ?thesis by (simp add: rsi_raw_def rs_def jsub_def fin_small)
  next
    case loss
    then show ?thesis by (simp add: rsi_raw_def rs_def jsub_def fin_small)
  next
    case none
    have "0 \<le> a / b"
      using none by simp
    from rsi_tail_Finite [OF this] show ?thesis
      using none by (simp add: rsi_raw_def rs_def)
  qed
qed

lemma jround_bounds:
  assumes "0 \<le> r" and "r \<le> 100"
  shows "\<exists>k. jround (Finite r) = Finite k \<and> 0 \<le> k \<and> k \<le> 100"
proof -
  have "0 \<le> \<lfloor>r + 1 / 2\<rfloor>"
    using assms by simp
  moreover have "\<lfloor>r + 1 / 2\<rfloor> \<le> 100"
  proof -
    have "r + 1 / 2 < 101" using assms by simp
    then have "\<lfloor>r + 1 / 2\<rfloor> < 101" by (simp add: floor_less_iff)
    then show ?thesis by simp
  qed
  ultimately show ?thesis by simp
qed

lemma rs_not_minus_one:
  assumes "1 \<le> length h"
  shows "jadd (Finite 1) (rs h) \<noteq> Finite 0"
proof
  assume "jadd (Finite 1) (rs h) = Finite 0"
  then obtain x where x: "rs h = Finite x" "1 + x = 0"
    unfolding jadd_eq_Finite by auto
  have "0 \<le> x"
    using x(1) avgGain_cases [OF assms] avgLoss_cases [OF assms]
    by (auto simp: rs_def fin_eq_Finite split: if_splits)
  then show False using x(2) by simp
qed


lemma large_price_bounds:
  "0 < large_price" "large_price < overflow_threshold" "overflow_threshold < 2 * large_price"
  using threshold_large threshold_below by (simp_all add: large_price_def)

lemma fin_literal: "- large_price \<le> x \<Longrightarrow> x \<le> large_price \<Longrightarrow> fin x = Finite x"
  using large_price_bounds by (simp add: fin_def)

lemma fin_overflow: "2 * large_price \<le> x \<Longrightarrow> fin x = PosInf"
  using large_price_bounds by (simp add: fin_def)

lemma fin_underflow: "x \<le> - (2 * large_price) \<Longrightarrow> fin x = NegInf"
  using large_price_bounds by (simp add: fin_def)

lemma large_price_fin:
  "fin large_price = Finite large_price"
  "fin (- large_price) = Finite (- large_price)"
  "fin 0 = Finite 0"
  "fin (large_price + large_price) = PosInf"
  "fin (2 * large_price) = PosInf"
  "fin (- large_price - large_price) = NegInf"
  "fin (- (2 * large_price)) = NegInf"
  "large_price \<noteq> 0" "\<not> large_price < 0" "0 < large_price"
  using large_price_bounds threshold_pos by (simp_all add: fin_def)

lemma changes_overflow:
  "priceChanges (series_of (feed_of_values [0, large_price, - (large_price), large_price, 0]))
     = [Finite (large_price), NegInf, PosInf, Finite (- (large_price))]"
  by (simp add: priceChanges_def series_of_def feed_of_values_def upt_rec value_or_0_def
      jsub_def large_price_fin)


lemma macd_label_cases:
  "macd_label h = ''bullish'' \<or> macd_label h = ''bearish'' \<or> macd_label h = ''neutral''"
  by (simp add: macd_label_def)

section \<open>Claims on the technical indicators\<close>

text \<open>
  C3. A feed whose historical series has fewer than 5 points (a missing series counts as
  empty) gets the fixed neutral defaults: RSI 50, MACD neutral, both moving averages at
  the current value, the Bollinger bands at the current value times 1.05 and 0.95, and a
  volume change of 0 percent. Nothing is computed from the series: any other short series
  and any other draw give the same record.
\<close>

theorem short_series_neutral_defaults:
  assumes "length (series_of feed) < 5"
  shows "calculateTechnicalIndicatorsFromHistorical feed r =
           \<lparr>rsi = Finite 50, macd = ''neutral'',
            ma50 = fin (current_value feed), ma200 = fin (current_value feed),
            bollingerUpper = jmul (fin (current_value feed)) (Finite (105 / 100)),
            bollingerLower = jmul (fin (current_value feed)) (Finite (95 / 100)),
            volumeChange = ''0%''\<rparr>
         \<and> (\<forall>h' r'. length h' < 5 \<longrightarrow>
               calculateTechnicalIndicatorsFromHistorical (feed\<lparr>historical := Some h'\<rparr>) r' =
               calculateTechnicalIndicatorsFromHistorical feed r)"
  using assms
  by (simp add: calculateTechnicalIndicatorsFromHistorical_def series_of_def Let_def
      split: option.splits)

theorem short_series_neutral_defaults_witness:
  "length (series_of (feed_of_values [7, 7, 7, 7])) < 5
   \<and> rsi (calculateTechnicalIndicatorsFromHistorical (feed_of_values [7, 7, 7, 7]) (1 / 2))
       = Finite 50
   \<and> macd (calculateTechnicalIndicatorsFromHistorical (feed_of_values [7, 7, 7, 7]) (1 / 2))
       = ''neutral''
   \<and> ma50 (calculateTechnicalIndicatorsFromHistorical (feed_of_values [7, 7, 7, 7]) (1 / 2))
       = Finite 7
   \<and> bollingerUpper (calculateTechnicalIndicatorsFromHistorical (feed_of_values [7, 7, 7, 7]) (1 / 2))
       = Finite (735 / 100)"
proof -
  have h: "length (series_of (feed_of_values [7, 7, 7, 7])) < 5"
    by (simp add: series_of_def feed_of_values_def)
  show ?thesis
    using h short_series_neutral_defaults [OF h, of "1 / 2"]
    by (simp add: feed_of_values_def fin_small)
qed

text \<open>
  C4, as stated, fails: on the series 0, \<open>10^308\<close>, \<open>-10^308\<close>, \<open>10^308\<close>, 0 two price
  changes overflow, the sums of the gains and of the losses are both infinite, their
  quotient is \<open>NaN\<close>, and so is the RSI that is stored.
\<close>

theorem rsi_not_a_number_on_overflow:
  "5 \<le> length (series_of (feed_of_values [0, large_price, - (large_price), large_price, 0]))
   \<and> rsi (calculateTechnicalIndicatorsFromHistorical
            (feed_of_values [0, large_price, - (large_price), large_price, 0]) (1 / 2)) = NaN
   \<and> \<not> jle (Finite 0) (rsi (calculateTechnicalIndicatorsFromHistorical
            (feed_of_values [0, large_price, - (large_price), large_price, 0]) (1 / 2)))
   \<and> \<not> jle (rsi (calculateTechnicalIndicatorsFromHistorical
            (feed_of_values [0, large_price, - (large_price), large_price, 0]) (1 / 2))) (Finite 100)"
proof -
  let ?h = "series_of (feed_of_values [0, large_price, - (large_price), large_price, 0])"
  have l: "length ?h = 5"
    by (simp add: series_of_def feed_of_values_def)
  have g: "gains ?h = PosInf" and s: "losses ?h = PosInf"
    by (simp_all add: gains_def losses_def changes_overflow large_price_fin)
  have "rsi_raw ?h = NaN"
    by (simp add: rsi_raw_def rs_def avgGain_def avgLoss_def g s l jsub_def)
  moreover have "rsi (calculateTechnicalIndicatorsFromHistorical
            (feed_of_values [0, large_price, - (large_price), large_price, 0]) (1 / 2)) = jround (rsi_raw ?h)"
    using l
    by (simp add: calculateTechnicalIndicatorsFromHistorical_def Let_def series_of_def
        split: option.splits)
  ultimately show ?thesis
    using l by (simp add: jle_def)
qed

text \<open>
  C4, amended. For a series of at least 5 points the RSI that is stored lies between 0 and
  100 unless the sum of the gains and the sum of the losses both overflow to infinity, in
  which case it is \<open>NaN\<close>. No divisor of the computation is zero: the length of the series,
  the guarded average loss, and one plus the relative strength.
\<close>

theorem rsi_in_range_unless_overflow:
  assumes "5 \<le> length (series_of feed)"
  shows "(gains (series_of feed) = PosInf \<and> losses (series_of feed) = PosInf \<longrightarrow>
            rsi (calculateTechnicalIndicatorsFromHistorical feed r) = NaN)
         \<and> (\<not> (gains (series_of feed) = PosInf \<and> losses (series_of feed) = PosInf) \<longrightarrow>
              (\<exists>k. rsi (calculateTechnicalIndicatorsFromHistorical feed r) = Finite k
                 \<and> 0 \<le> k \<and> k \<le> 100))
         \<and> real (length (series_of feed)) \<noteq> 0
         \<and> avgLoss (series_of feed) \<noteq> Finite 0
         \<and> jadd (Finite 1) (rs (series_of feed)) \<noteq> Finite 0"
proof -
  let ?h = "series_of feed"
  have n: "1 \<le> length ?h"
    using assms by simp
  have r: "rsi (calculateTechnicalIndicatorsFromHistorical feed r) = jround (rsi_raw ?h)"
    using assms
    by (simp add: calculateTechnicalIndicatorsFromHistorical_def series_of_def Let_def
        split: option.splits)
  have 1: "gains ?h = PosInf \<and> losses ?h = PosInf \<longrightarrow> jround (rsi_raw ?h) = NaN"
    using rsi_raw_cases [OF n] by auto
  have 2: "\<not> (gains ?h = PosInf \<and> losses ?h = PosInf) \<longrightarrow>
             (\<exists>k. jround (rsi_raw ?h) = Finite k \<and> 0 \<le> k \<and> k \<le> 100)"
    using rsi_raw_cases [OF n] jround_bounds by metis
  have 3: "avgLoss ?h \<noteq> Finite 0"
    using avgLoss_cases [OF n] by auto
  have 4: "real (length ?h) \<noteq> 0"
    using assms by auto
  show ?thesis
    unfolding r using 1 2 3 4 rs_not_minus_one [OF n] by blast
qed


theorem rsi_in_range_unless_overflow_witness:
  "5 \<le> length (series_of (feed_of_values [10, 12, 11, 13, 12]))
   \<and> \<not> (gains (series_of (feed_of_values [10, 12, 11, 13, 12])) = PosInf
         \<and> losses (series_of (feed_of_values [10, 12, 11, 13, 12])) = PosInf)
   \<and> rsi (calculateTechnicalIndicatorsFromHistorical (feed_of_values [10, 12, 11, 13, 12]) (1 / 2))
       = Finite 67
   \<and> avgLoss (series_of (feed_of_values [10, 12, 11, 13, 12])) \<noteq> Finite 0"
proof -
  let ?h = "series_of (feed_of_values [10, 12, 11, 13, 12])"
  have h: "5 \<le> length ?h"
    by (simp add: series_of_def feed_of_values_def)
  have c: "priceChanges ?h = [Finite 2, Finite (- 1), Finite 2, Finite (- 1)]"
    by (simp add: priceChanges_def series_of_def feed_of_values_def upt_rec value_or_0_def
        jsub_def fin_small)
  have g: "gains ?h = Finite 4" and s: "losses ?h = Finite 2"
    by (simp_all add: gains_def losses_def c fin_small)
  have l: "length ?h = 5"
    by (simp add: series_of_def feed_of_values_def)
  have r: "rsi_raw ?h = Finite (200 / 3)"
    by (simp add: rsi_raw_def rs_def avgGain_def avgLoss_def g s l jsub_def fin_small)
  have v: "rsi (calculateTechnicalIndicatorsFromHistorical
                  (feed_of_values [10, 12, 11, 13, 12]) (1 / 2)) = Finite 67"
    using l r
    by (simp add: calculateTechnicalIndicatorsFromHistorical_def Let_def series_of_def
        split: option.splits)
  show ?thesis
    using h v g rsi_in_range_unless_overflow [OF h, of "1 / 2"] by simp
qed




text \<open>
  C6. The MACD label is always one of bullish, bearish and neutral, but it does not compare
  the 12-point and the 26-point simple moving averages of the series: the sums of the last
  (up to) 12 and 26 prices are divided by the constants 12 and 26, not by the number of
  prices summed (as the 50- and 200-point averages of the same function are). On a flat
  series of five prices both moving averages are 10, and the label is bullish.
\<close>

theorem macd_flat_series_is_bullish:
  "macd (calculateTechnicalIndicatorsFromHistorical (feed_of_values [10, 10, 10, 10, 10]) (1 / 2))
     = ''bullish''
   \<and> 5 \<le> length (series_of (feed_of_values [10, 10, 10, 10, 10]))
   \<and> simple_moving_average 12 (series_of (feed_of_values [10, 10, 10, 10, 10])) = 10
   \<and> simple_moving_average 26 (series_of (feed_of_values [10, 10, 10, 10, 10])) = 10
   \<and> ma50 (calculateTechnicalIndicatorsFromHistorical (feed_of_values [10, 10, 10, 10, 10]) (1 / 2))
     = Finite 10"
  by (simp add: calculateTechnicalIndicatorsFromHistorical_def Let_def feed_of_values_def
      macd_label_def shortMA_def longMA_def sum_values_def slice_last_def moving_average_def
      simple_moving_average_def mean_def last_prices_def series_of_def value_or_0_def
      fin_small)

section \<open>Lemmas on strings and on the extraction loop\<close>

lemma lower_char_idem: "lower_char (lower_char c) = lower_char c"
  by (auto simp: lower_char_def Let_def)

lemma toLowerCase_idem: "toLowerCase (toLowerCase s) = toLowerCase s"
  by (simp add: toLowerCase_def lower_char_idem)

lemma starts_with_iff: "starts_with str pat \<longleftrightarrow> (\<exists>post. str = pat @ post)"
  by (induction str pat rule: starts_with.induct) auto

lemma str_includes_iff: "str_includes str pat \<longleftrightarrow> occurs_in pat str"
proof (induction str)
  case Nil
  then show ?case by (auto simp: occurs_in_def)
next
  case (Cons c cs)
  have "occurs_in pat (c # cs) \<longleftrightarrow> (\<exists>post. c # cs = pat @ post) \<or> occurs_in pat cs"
    unfolding occurs_in_def
  proof (intro iffI; elim exE disjE)
    fix pre post assume "c # cs = pre @ pat @ post"
    then show "(\<exists>post. c # cs = pat @ post) \<or> (\<exists>pre post. cs = pre @ pat @ post)"
      by (cases pre) auto
  next
    fix post assume "c # cs = pat @ post"
    then have "c # cs = [] @ pat @ post" by simp
    then show "\<exists>pre post. c # cs = pre @ pat @ post" by blast
  next
    fix pre post assume "cs = pre @ pat @ post"
    then have "c # cs = (c # pre) @ pat @ post" by simp
    then show "\<exists>pre post. c # cs = pre @ pat @ post" by blast
  qed
  with Cons show ?case by (simp add: starts_with_iff)
qed

lemma match_here_iff:
  assumes "pat \<noteq> []" "map lower_char pat = pat" "map lower_char str = str"
    "is_word_char (hd pat)" "is_word_char (last pat)"
  shows "match_here prev str pat \<longleftrightarrow>
    (\<exists>post. str = pat @ post \<and> \<not> word_side prev \<and> \<not> word_side (first_char post))"
proof
  assume m: "match_here prev str pat"
  then have len: "length pat \<le> length str"
    and eq: "map lower_char (take (length pat) str) = map lower_char pat"
    and b1: "word_boundary prev (first_char str)"
    and b2: "word_boundary (Some (last (take (length pat) str))) (first_char (drop (length pat) str))"
    using assms(1) by (simp_all add: match_here_def)
  have "map lower_char (take (length pat) str) = take (length pat) str"
    using assms(3) by (metis take_map)
  then have tk: "take (length pat) str = pat"
    using eq assms(2) by simp
  then have split: "str = pat @ drop (length pat) str"
    by (metis append_take_drop_id)
  have "first_char str = Some (hd pat)"
    using split assms(1) by (cases pat) (auto, metis first_char.simps(2) append_Cons)
  then have "\<not> word_side prev"
    using b1 assms(4) by (simp add: word_boundary_def)
  moreover have "\<not> word_side (first_char (drop (length pat) str))"
    using b2 tk assms(5) by (simp add: word_boundary_def)
  ultimately show "\<exists>post. str = pat @ post \<and> \<not> word_side prev \<and> \<not> word_side (first_char post)"
    using split by blast
next
  assume "\<exists>post. str = pat @ post \<and> \<not> word_side prev \<and> \<not> word_side (first_char post)"
  then obtain post where t: "str = pat @ post" and p: "\<not> word_side prev"
    and q: "\<not> word_side (first_char post)" by blast
  have "first_char str = Some (hd pat)"
    using t assms(1) by (cases pat) auto
  then show "match_here prev str pat"
    using t p q assms by (simp add: match_here_def word_boundary_def)
qed

lemma regex_test_from_iff:
  assumes "pat \<noteq> []" "map lower_char pat = pat" "map lower_char str = str"
    "is_word_char (hd pat)" "is_word_char (last pat)"
  shows "regex_test_from prev str pat \<longleftrightarrow>
    (\<exists>pre post. str = pre @ pat @ post
       \<and> \<not> word_side (if pre = [] then prev else Some (last pre))
       \<and> \<not> word_side (first_char post))"
  using assms(3)
proof (induction str arbitrary: prev)
  case Nil
  then show ?case using assms(1) by (simp add: match_here_def)
next
  case (Cons c cs)
  have lc: "map lower_char cs = cs" using Cons.prems by simp
  note mh = match_here_iff [OF assms(1,2) Cons.prems assms(4,5), of prev]
  note ih = Cons.IH [OF lc, of "Some c"]
  show ?case
  proof
    assume "regex_test_from prev (c # cs) pat"
    then consider "match_here prev (c # cs) pat" | "regex_test_from (Some c) cs pat" by auto
    then show "\<exists>pre post. c # cs = pre @ pat @ post
       \<and> \<not> word_side (if pre = [] then prev else Some (last pre))
       \<and> \<not> word_side (first_char post)"
    proof cases
      case 1
      then obtain post where "c # cs = [] @ pat @ post" "\<not> word_side prev" "\<not> word_side (first_char post)"
        using mh by auto
      then show ?thesis by (intro exI [of _ "[]"] exI [of _ post]) simp
    next
      case 2
      then obtain pre post where s: "cs = pre @ pat @ post"
        and a: "\<not> word_side (if pre = [] then Some c else Some (last pre))"
        and b: "\<not> word_side (first_char post)"
        using ih by blast
      show ?thesis
        using s a b by (intro exI [of _ "c # pre"] exI [of _ post]) auto
    qed
  next
    assume "\<exists>pre post. c # cs = pre @ pat @ post
       \<and> \<not> word_side (if pre = [] then prev else Some (last pre))
       \<and> \<not> word_side (first_char post)"
    then obtain pre post where s: "c # cs = pre @ pat @ post"
      and a: "\<not> word_side (if pre = [] then prev else Some (last pre))"
      and b: "\<not> word_side (first_char post)" by blast
    show "regex_test_from prev (c # cs) pat"
    proof (cases pre)
      case Nil
      then have "match_here prev (c # cs) pat"
        using mh s a b by auto
      then show ?thesis by simp
    next
      case (Cons d pre')
      then have "cs = pre' @ pat @ post" and "d = c" using s by auto
      moreover have "\<not> word_side (if pre' = [] then Some c else Some (last pre'))"
        using a Cons \<open>d = c\<close> by (auto split: if_splits)
      ultimately have "regex_test_from (Some c) cs pat"
        using ih b by blast
      then show ?thesis by simp
    qed
  qed
qed

lemma word_side_conv:
  "\<not> word_side (if pre = [] then None else Some (last pre)) \<longleftrightarrow> pre = [] \<or> \<not> is_word_char (last pre)"
  "\<not> word_side (first_char post) \<longleftrightarrow> post = [] \<or> \<not> is_word_char (hd post)"
  by (cases pre; cases post; simp)+

lemma regex_word_test_iff:
  assumes "pat \<noteq> []" "map lower_char pat = pat" "map lower_char str = str"
    "is_word_char (hd pat)" "is_word_char (last pat)"
  shows "regex_word_test pat str \<longleftrightarrow> standalone_word_in pat str"
  unfolding regex_word_test_def standalone_word_in_def
    regex_test_from_iff [OF assms] word_side_conv ..

lemma check_asset_eq:
  "check_asset nq assets asset =
     (if code_present nq asset then push_new assets (mapSymbolToName (toLowerCase asset)) else assets)"
  by (simp add: check_asset_def code_present_def)

lemma distinct_push_new: "distinct assets \<Longrightarrow> distinct (push_new assets n)"
  by (simp add: push_new_def)

lemma set_push_new: "set (push_new assets n) = insert n (set assets)"
  by (auto simp: push_new_def)

lemma distinct_foldl_check_asset:
  "distinct acc \<Longrightarrow> distinct (foldl (check_asset nq) acc as)"
  by (induction as arbitrary: acc) (simp_all add: check_asset_eq distinct_push_new)

lemma set_foldl_check_asset:
  "set (foldl (check_asset nq) acc as) =
     set acc \<union> {mapSymbolToName (toLowerCase a) | a. a \<in> set as \<and> code_present nq a}"
  by (induction as arbitrary: acc) (auto simp: check_asset_eq set_push_new)

lemma commonAssets_shape:
  "list_all (\<lambda>a. toLowerCase a = a \<and> a \<noteq> [] \<and> is_word_char (hd a)
      \<and> (length a \<le> 4 \<longrightarrow> is_word_char (last a))) commonAssets"
  by (simp add: commonAssets_def toLowerCase_def lower_char_def is_word_char_def)

lemma commonAssets_names:
  "map (\<lambda>a. (a, mapSymbolToName a)) commonAssets = asset_names"
  by code_simp

lemma asset_names_canonical:
  "list_all (\<lambda>(a, full). full \<in> set canonical_names) asset_names"
  by code_simp

lemma asset_names_set:
  "(a, full) \<in> set asset_names \<longleftrightarrow> a \<in> set commonAssets \<and> full = mapSymbolToName a"
  unfolding commonAssets_names [symmetric] by auto

lemma commonAssets_facts:
  assumes "a \<in> set commonAssets"
  shows "toLowerCase a = a" "a \<noteq> []" "is_word_char (hd a)"
    "length a \<le> 4 \<Longrightarrow> is_word_char (last a)"
  using assms commonAssets_shape by (auto simp: list_all_iff)

lemma code_present_iff:
  assumes "a \<in> set commonAssets"
  shows "code_present (toLowerCase q) a \<longleftrightarrow> asset_present a (toLowerCase q)"
proof (cases "length a \<le> 4")
  case True
  have lq: "map lower_char (toLowerCase q) = toLowerCase q"
    using toLowerCase_idem [of q] by (simp add: toLowerCase_def)
  have la: "map lower_char a = a"
    using commonAssets_facts(1) [OF assms] by (simp add: toLowerCase_def)
  have r: "regex_word_test a (toLowerCase q) \<longleftrightarrow> standalone_word_in a (toLowerCase q)"
    using commonAssets_facts [OF assms] True
    by (intro regex_word_test_iff la lq) simp_all
  have "standalone_word_in a (toLowerCase q) \<Longrightarrow> occurs_in a (toLowerCase q)"
    by (auto simp: standalone_word_in_def occurs_in_def)
  then show ?thesis
    using True r by (auto simp: code_present_def asset_present_def str_includes_iff)
next
  case False
  then show ?thesis
    by (simp add: code_present_def asset_present_def str_includes_iff)
qed

section \<open>Claim on the asset extraction\<close>

text \<open>
  C9. For every query, \<open>extractAssetsFromQuery\<close> returns a list without duplicates whose
  members are canonical full names. Matching ignores case: two queries with the same
  lower-case form give the same list. A name is in the list exactly when an asset string
  with that canonical name is present in the lower-cased query, where an asset of at most
  4 characters is present only as a standalone word (no word character before or after it)
  and a longer one wherever it occurs. A symbol and its full name have the same canonical
  name (the code maps each asset string to the name written next to it in
  \<open>asset_names\<close>), so the two together give that name once.
\<close>

theorem extractAssetsFromQuery_sound:
  "distinct (extractAssetsFromQuery q)
   \<and> set (extractAssetsFromQuery q) \<subseteq> set canonical_names
   \<and> (\<forall>q'. toLowerCase q' = toLowerCase q \<longrightarrow> extractAssetsFromQuery q' = extractAssetsFromQuery q)
   \<and> (\<forall>n. n \<in> set (extractAssetsFromQuery q) \<longleftrightarrow>
          (\<exists>(a, full) \<in> set asset_names. full = n \<and> asset_present a (toLowerCase q)))
   \<and> map (\<lambda>a. (a, mapSymbolToName a)) commonAssets = asset_names"
proof -
  have d: "distinct (extractAssetsFromQuery q)"
    by (simp add: extractAssetsFromQuery_def distinct_foldl_check_asset)
  have m: "n \<in> set (extractAssetsFromQuery q) \<longleftrightarrow>
          (\<exists>(a, full) \<in> set asset_names. full = n \<and> asset_present a (toLowerCase q))" for n
  proof -
    have "n \<in> set (extractAssetsFromQuery q) \<longleftrightarrow>
        (\<exists>a \<in> set commonAssets. mapSymbolToName (toLowerCase a) = n \<and> code_present (toLowerCase q) a)"
      by (auto simp: extractAssetsFromQuery_def set_foldl_check_asset)
    also have "\<dots> \<longleftrightarrow> (\<exists>a \<in> set commonAssets. mapSymbolToName a = n \<and> asset_present a (toLowerCase q))"
      using commonAssets_facts(1) code_present_iff by (intro bex_cong) auto
    also have "\<dots> \<longleftrightarrow> (\<exists>(a, full) \<in> set asset_names. full = n \<and> asset_present a (toLowerCase q))"
    proof
      assume "\<exists>a \<in> set commonAssets. mapSymbolToName a = n \<and> asset_present a (toLowerCase q)"
      then obtain a where a: "a \<in> set commonAssets" "mapSymbolToName a = n"
        "asset_present a (toLowerCase q)"
        by blast
      have "(a, n) \<in> set asset_names"
        using a(1,2) by (simp only: asset_names_set simp_thms)
      then show "\<exists>(a, full) \<in> set asset_names. full = n \<and> asset_present a (toLowerCase q)"
        using a(3) by (intro bexI [of _ "(a, n)"]) simp_all
    next
      assume "\<exists>(a, full) \<in> set asset_names. full = n \<and> asset_present a (toLowerCase q)"
      then obtain x where x: "x \<in> set asset_names" "snd x = n"
        "asset_present (fst x) (toLowerCase q)"
        by (auto simp: case_prod_unfold)
      have "(fst x, snd x) \<in> set asset_names"
        using x(1) by simp
      then have "fst x \<in> set commonAssets" "snd x = mapSymbolToName (fst x)"
        by (simp_all only: asset_names_set)
      then show "\<exists>a \<in> set commonAssets. mapSymbolToName a = n \<and> asset_present a (toLowerCase q)"
        using x(2,3) by (intro bexI [of _ "fst x"]) simp_all
    qed
    finally show ?thesis .
  qed
  have c: "set (extractAssetsFromQuery q) \<subseteq> set canonical_names"
  proof
    fix n assume "n \<in> set (extractAssetsFromQuery q)"
    then have "\<exists>(a, full) \<in> set asset_names. full = n \<and> asset_present a (toLowerCase q)"
      by (simp only: m)
    then obtain x where x: "x \<in> set asset_names" "snd x = n"
      by (auto simp: case_prod_unfold)
    have "\<forall>x \<in> set asset_names. snd x \<in> set canonical_names"
      using asset_names_canonical by (simp only: list_all_iff case_prod_unfold)
    then show "n \<in> set canonical_names"
      using x by blast
  qed
  have i: "toLowerCase q' = toLowerCase q \<longrightarrow> extractAssetsFromQuery q' = extractAssetsFromQuery q" for q'
    by (simp add: extractAssetsFromQuery_def)
  show ?thesis
    by (intro conjI allI) (rule d, rule c, rule i, rule m, rule commonAssets_names)
qed

theorem extractAssetsFromQuery_sound_witness:
  "extractAssetsFromQuery ''BTC/bitcoin metal'' = [''Bitcoin'']
   \<and> distinct (extractAssetsFromQuery ''BTC/bitcoin metal'')
   \<and> set (extractAssetsFromQuery ''BTC/bitcoin metal'') \<subseteq> set canonical_names
   \<and> toLowerCase ''btc/BITCOIN Metal'' = toLowerCase ''BTC/bitcoin metal''
   \<and> extractAssetsFromQuery ''btc/BITCOIN Metal'' = [''Bitcoin'']
   \<and> (\<exists>(a, full) \<in> set asset_names. full = ''Bitcoin''
         \<and> asset_present a (toLowerCase ''BTC/bitcoin metal''))
   \<and> (''meta'', ''Meta'') \<in> set asset_names
   \<and> \<not> asset_present ''meta'' (toLowerCase ''BTC/bitcoin metal'')
   \<and> mapSymbolToName ''eth'' = ''Ethereum'' \<and> mapSymbolToName ''ethereum'' = ''Ethereum''"
proof -
  let ?q = "''BTC/bitcoin metal''"
  note t = extractAssetsFromQuery_sound [of ?q]
  have e: "extractAssetsFromQuery ?q = [''Bitcoin'']"
    by code_simp
  have l: "toLowerCase ''btc/BITCOIN Metal'' = toLowerCase ?q"
    by code_simp
  have e': "extractAssetsFromQuery ''btc/BITCOIN Metal'' = [''Bitcoin'']"
    using t l e by simp
  have a: "(''meta'', ''Meta'') \<in> set asset_names"
     "(''eth'', ''Ethereum'') \<in> set asset_names" "(''ethereum'', ''Ethereum'') \<in> set asset_names"
    by (simp_all add: asset_names_def)
  have n: "mapSymbolToName a = full" if "(a, full) \<in> set asset_names" for a full
  proof -
    have "(a, full) \<in> set (map (\<lambda>a. (a, mapSymbolToName a)) commonAssets)"
      using that
      by (simp only: t [THEN conjunct2, THEN conjunct2, THEN conjunct2, THEN conjunct2])
    then show ?thesis by auto
  qed
  have "''Bitcoin'' \<in> set (extractAssetsFromQuery ?q)"
    using e by simp
  then have p: "\<exists>(a, full) \<in> set asset_names. full = ''Bitcoin''
         \<and> asset_present a (toLowerCase ?q)"
    using t by blast
  have "''Meta'' \<notin> set (extractAssetsFromQuery ?q)"
    using e by simp
  then have "\<not> (\<exists>(a, full) \<in> set asset_names. full = ''Meta'' \<and> asset_present a (toLowerCase ?q))"
    using t by blast
  then have m: "\<not> asset_present ''meta'' (toLowerCase ?q)"
    using a(1) by blast
  show ?thesis
    using t [THEN conjunct1] t [THEN conjunct2, THEN conjunct1] e l e' p a(1) m n [OF a(2)]
      n [OF a(3)]
    by simp
qed

section \<open>Lemmas on the market data\<close>

lemma point_value_eq [simp]: "point_value d = pvalue d"
  by (simp add: point_value_def num_or_def)

lemma process_assets_eq:
  "process_assets env k assets acc =
     Inr (acc @ map (\<lambda>(i, a). process_asset env i a) (enumerate k assets))"
  by (induction assets arbitrary: k acc) simp_all

lemma getMarketDataFeeds_eq:
  "getMarketDataFeeds env assets = map (\<lambda>(i, a). process_asset env i a) (enumerate 0 assets)"
  by (simp add: getMarketDataFeeds_def process_assets_eq)

lemma trend_of_change_cases: "trend_of_change pc \<in> set trend_values"
  by (simp add: trend_of_change_def trend_values_def)

lemma createFallbackDataFeed_fields:
  "feed_id (createFallbackDataFeed env k a) = toLowerCase a"
  "name (createFallbackDataFeed env k a) = display_name a"
  "trend (createFallbackDataFeed env k a) \<in> set trend_values"
  "current_value (createFallbackDataFeed env k a) = getBasePrice a"
  by (simp_all add: createFallbackDataFeed_def Let_def trend_of_change_cases)

lemma stable_is_trend: "''stable'' \<in> set trend_values"
  by (simp add: trend_values_def)

lemma build_feed_fields:
  "feed_id (build_feed env k a p h) = toLowerCase a"
  "name (build_feed env k a p h) = display_name a"
  "trend (build_feed env k a p h) \<in> set trend_values"
  by (cases p; cases h;
      simp add: build_feed_def createFallbackDataFeed_fields trend_of_change_cases
        stable_is_trend)+

lemma build_feed_error:
  "build_feed env k a (Inl e) h = createFallbackDataFeed env k a"
  "build_feed env k a p (Inl e) = createFallbackDataFeed env k a"
  by (simp_all add: build_feed_def split: sum.splits)

lemma map_enumerate_const:
  "map (\<lambda>(i, a). f a) (enumerate k xs) = map f xs"
  by (induction xs arbitrary: k) simp_all

lemma getTokenPrice_failure: "getTokenPrice (NetworkFailure e) token = Inr (fallbackPrice token)"
  by (simp add: getTokenPrice_def fetchTokenPrice_def)

lemma getHistoricalPrices_failure:
  "history_response env k (toLowerCase token) days = NetworkFailure e \<Longrightarrow>
   getHistoricalPrices env k token days = Inr (mockHistoricalData env k token days)"
  by (simp add: getHistoricalPrices_def fetchHistoricalPrices_def)

lemma bitcoin_fallback_price: "fallbackPrice ''Bitcoin'' = 62500"
  by code_simp

lemma length_mockHistoricalData: "length (mockHistoricalData env k token days) = Suc days"
  by (simp add: mockHistoricalData_def)

lemma bitcoin_base_price: "getBasePrice ''Bitcoin'' = 62500"
  by code_simp

lemma bitcoin_display_name: "display_name ''Bitcoin'' = ''Bitcoin''"
  by code_simp

section \<open>Claim on the market data feeds\<close>

text \<open>
  C10. For every list of asset names (the empty one included), \<open>getMarketDataFeeds\<close>
  returns exactly one feed per requested asset, in the order of the request: the ids are the
  lower-cased names. No answer of the network changes that: a failed request is replaced
  inside \<open>getTokenPrice\<close> and \<open>getHistoricalPrices\<close>, and an error thrown in a round of the
  loop is replaced by the fallback feed of that asset. Every trend is up, down or stable.
\<close>

theorem getMarketDataFeeds_one_feed_each:
  "length (getMarketDataFeeds env assets) = length assets
   \<and> map feed_id (getMarketDataFeeds env assets) = map toLowerCase assets
   \<and> map name (getMarketDataFeeds env assets) = map display_name assets
   \<and> list_all (\<lambda>feed. trend feed \<in> set trend_values) (getMarketDataFeeds env assets)
   \<and> (\<forall>k < length assets.
         getMarketDataFeeds env assets ! k =
           build_feed env k (assets ! k)
             (getTokenPrice (price_response env k (toLowerCase (assets ! k))) (assets ! k))
             (getHistoricalPrices env k (assets ! k) 14))
   \<and> (\<forall>k a e p h. build_feed env k a (Inl e) h = createFallbackDataFeed env k a
                  \<and> build_feed env k a p (Inl e) = createFallbackDataFeed env k a)"
proof -
  have 1: "map feed_id (getMarketDataFeeds env assets) = map toLowerCase assets"
    by (simp add: getMarketDataFeeds_eq process_asset_def build_feed_fields comp_def
        case_prod_unfold map_enumerate_const [of toLowerCase, unfolded case_prod_unfold])
  have 2: "map name (getMarketDataFeeds env assets) = map display_name assets"
    by (simp add: getMarketDataFeeds_eq process_asset_def build_feed_fields comp_def
        case_prod_unfold map_enumerate_const [of display_name, unfolded case_prod_unfold])
  have 3: "list_all (\<lambda>feed. trend feed \<in> set trend_values) (getMarketDataFeeds env assets)"
    by (auto simp: getMarketDataFeeds_eq list_all_iff process_asset_def build_feed_fields)
  have 4: "getMarketDataFeeds env assets ! k =
           build_feed env k (assets ! k)
             (getTokenPrice (price_response env k (toLowerCase (assets ! k))) (assets ! k))
             (getHistoricalPrices env k (assets ! k) 14)" if "k < length assets" for k
    using that by (simp add: getMarketDataFeeds_eq nth_enumerate_eq process_asset_def)
  show ?thesis
    using 1 2 3 4 build_feed_error by (simp add: getMarketDataFeeds_eq)
qed

theorem getMarketDataFeeds_one_feed_each_witness:
  "(0::nat) < length [''Bitcoin'', ''FOO'']
   \<and> length (getMarketDataFeeds failing_environment [''Bitcoin'', ''FOO'']) = 2
   \<and> map feed_id (getMarketDataFeeds failing_environment [''Bitcoin'', ''FOO''])
       = [''bitcoin'', ''foo'']
   \<and> map name (getMarketDataFeeds failing_environment [''Bitcoin'', ''FOO''])
       = [''Bitcoin'', ''Foo'']
   \<and> list_all (\<lambda>feed. trend feed \<in> set trend_values)
         (getMarketDataFeeds failing_environment [''Bitcoin'', ''FOO''])
   \<and> getMarketDataFeeds failing_environment [''Bitcoin'', ''FOO''] ! 0
       = build_feed failing_environment 0 ''Bitcoin'' (Inr 62500)
           (Inr (mockHistoricalData failing_environment 0 ''Bitcoin'' 14))"
proof -
  note t = getMarketDataFeeds_one_feed_each [of failing_environment "[''Bitcoin'', ''FOO'']"]
  have l: "map toLowerCase [''Bitcoin'', ''FOO''] = [''bitcoin'', ''foo'']"
    "map display_name [''Bitcoin'', ''FOO''] = [''Bitcoin'', ''Foo'']"
    by code_simp+
  have p: "getTokenPrice (price_response failing_environment 0 (toLowerCase ''Bitcoin'')) ''Bitcoin''
             = Inr 62500"
    by (simp add: failing_environment_def getTokenPrice_failure bitcoin_fallback_price)
  have h: "getHistoricalPrices failing_environment 0 ''Bitcoin'' 14
             = Inr (mockHistoricalData failing_environment 0 ''Bitcoin'' 14)"
    by (rule getHistoricalPrices_failure [where e = "Error ''Failed to fetch''"])
      (simp add: failing_environment_def)
  have 0: "(0::nat) < length [''Bitcoin'', ''FOO'']"
    by simp
  have n: "getMarketDataFeeds failing_environment [''Bitcoin'', ''FOO''] ! 0
       = build_feed failing_environment 0 ''Bitcoin'' (Inr 62500)
           (Inr (mockHistoricalData failing_environment 0 ''Bitcoin'' 14))"
    using t [THEN conjunct2, THEN conjunct2, THEN conjunct2, THEN conjunct2, THEN conjunct1,
        rule_format, OF 0] p h
    by simp
  show ?thesis
    using t [THEN conjunct1] t [THEN conjunct2, THEN conjunct1]
      t [THEN conjunct2, THEN conjunct2, THEN conjunct1]
      t [THEN conjunct2, THEN conjunct2, THEN conjunct2, THEN conjunct1] l n
    by simp
qed

section \<open>Claim on failed requests\<close>

text \<open>
  C2, as stated, fails: a failed request makes \<open>analyzePrediction\<close> throw the error on to
  its caller, and \<open>getFeedById\<close> returns \<open>null\<close>, which is no placeholder data.
\<close>

theorem analyzePrediction_rethrows:
  "analyzePrediction (NetworkFailure (Error ''Failed to fetch'')) ''BTC price?''
     = (Inl (Error ''Failed to fetch'') :: error + string)
   \<and> getFeedById (AxiosFailure (Error ''Network Error'')) ''ftso-btc-usd'' = Inr None"
  by (simp add: analyzePrediction_def requestAnalysis_def getFeedById_def)

lemma length_generateMockHistoricalData: "length (generateMockHistoricalData env f lo hi) = 24"
  by (simp add: generateMockHistoricalData_def)

text \<open>
  C2, amended. On a failed request \<open>getAllFeeds\<close> returns its five mock feeds (24 generated
  points each) and \<open>getTokenPrice\<close> its fallback price, also when the answer has an error
  status; \<open>getFeedById\<close> catches the failure and returns \<open>null\<close>; \<open>analyzePrediction\<close>
  logs the error and throws it again, so its caller receives it.
\<close>

theorem failed_requests_outcomes:
  "getAllFeeds env (AxiosFailure e) = Inr (mockFeeds env)
   \<and> map ftso_id (mockFeeds env) =
       [''ftso-xrp-usd'', ''ftso-flr-usd'', ''ftso-ltc-usd'', ''ftso-btc-usd'', ''ftso-eth-usd'']
   \<and> map (\<lambda>f. length (historical_data f)) (mockFeeds env) = [24, 24, 24, 24, 24]
   \<and> getTokenPrice (NetworkFailure e) token = Inr (fallbackPrice token)
   \<and> getTokenPrice (HttpError b) token = Inr (fallbackPrice token)
   \<and> getFeedById (AxiosFailure e) feedId = Inr None
   \<and> analyzePrediction (NetworkFailure e) q = Inl e
   \<and> (\<exists>e'. analyzePrediction (HttpError b) q = Inl e')"
  by (simp add: getAllFeeds_def mockFeeds_def length_generateMockHistoricalData
      getTokenPrice_def fetchTokenPrice_def getFeedById_def analyzePrediction_def
      requestAnalysis_def split: option.splits)

section \<open>Lemmas on the consensus\<close>

lemma handlePredictionSubmit_eq:
  assumes "\<not> list_all is_space q"
  shows "handlePredictionSubmit env q =
     Some \<lparr>question = q,
            verificationResult =
              fst (consensus (submitted_trend env q) (hasPriceQuestion q) (primaryAsset q)
                     (currentPrice (primaryAssetData (getMarketDataFeeds env (requested_assets q))
                        (primaryAsset q)))
                     (find_timeframe q) (random env)),
            dataFeeds = getMarketDataFeeds env (requested_assets q),
            modelComparison =
              snd (consensus (submitted_trend env q) (hasPriceQuestion q) (primaryAsset q)
                     (currentPrice (primaryAssetData (getMarketDataFeeds env (requested_assets q))
                        (primaryAsset q)))
                     (find_timeframe q) (random env))\<rparr>"
  using assms by (simp add: handlePredictionSubmit_def Let_def submitted_trend_def)

lemma consensus_final_decision:
  "final_decision (fst (consensus t h a p tf rand)) =
     str_or (finalDecision t h (rand DecisionDraw)) ''UNCERTAIN''"
  by (simp add: consensus_def Let_def)

lemma consensus_confidence:
  "confidence (fst (consensus t h a p tf rand)) = overall_confidence (rand ConfidenceDraw)"
  by (simp add: consensus_def Let_def)

lemma consensus_verification:
  "verification (fst (consensus t h a p tf rand)) =
     generateVerificationDetails (finalDecision t h (rand DecisionDraw))
       (overall_confidence (rand ConfidenceDraw)) (if a = [] then ''Bitcoin'' else a)
       (if t = [] then ''stable'' else t) rand"
  by (simp add: consensus_def Let_def)

lemma consensus_comparison:
  "snd (consensus t h a p tf rand) =
     generateModelComparison (str_or (finalDecision t h (rand DecisionDraw)) ''UNCERTAIN'')
       (if a = [] then ''Bitcoin'' else a) t rand"
  by (simp add: consensus_def Let_def)

lemma array_get_decisions:
  assumes "is_draw r"
  shows "\<exists>l. array_get decisions (js_floor (r * real (length decisions))) = Some l
             \<and> l \<in> set decisions"
proof -
  have "0 \<le> r * 5" "r * 5 < 5"
    using assms by (simp_all add: is_draw_def)
  then have "0 \<le> \<lfloor>r * 5\<rfloor>" "\<lfloor>r * 5\<rfloor> < 5"
    by (simp_all add: floor_less_iff)
  then have "0 \<le> \<lfloor>r * 5\<rfloor>" "nat \<lfloor>r * 5\<rfloor> < 5"
    by linarith+
  moreover have "length decisions = 5"
    by (simp add: decisions_def)
  ultimately show ?thesis
    by (simp add: array_get_def js_floor_def)
qed

lemma decisions_are_labels: "set decisions \<subseteq> set decision_labels"
  by (simp add: decisions_def decision_labels_def)

lemma finalDecision_label:
  assumes "is_draw r"
  shows "is_label (finalDecision t h r)"
proof -
  obtain l where "array_get decisions (js_floor (r * real (length decisions))) = Some l"
    "l \<in> set decision_labels"
    using array_get_decisions [OF assms] decisions_are_labels by blast
  then show ?thesis
    by (simp add: finalDecision_def is_label_def decision_labels_def)
qed

lemma str_or_label:
  "is_label fd \<Longrightarrow> str_or fd ''UNCERTAIN'' \<in> set decision_labels \<and> fd = Some (str_or fd ''UNCERTAIN'')"
  by (auto simp: is_label_def str_or_def decision_labels_def split: option.splits)

lemma verification_decisions_labels:
  assumes "is_label fd"
  shows "list_all is_label
           (map (\<lambda>(model, r). decision r)
              (model_responses (generateVerificationDetails fd conf a t rand)))"
  using assms by (simp add: generateVerificationDetails_def is_label_def decision_labels_def)

lemma predictions_labels: "set (predictions dec) \<subseteq> set decision_labels"
  by (simp add: predictions_def decision_labels_def)

lemma comparison_predictions:
  "map prediction (generateModelComparison dec a t rand) = map Some (predictions dec)"
  by (simp add: generateModelComparison_def modelNames_def predictions_def array_get_def
      Let_def)

lemma comparison_labels:
  "list_all is_label (map prediction (generateModelComparison dec a t rand))"
  using predictions_labels [of dec]
  by (auto simp: comparison_predictions list_all_iff is_label_def)

lemma overall_confidence_bounds:
  assumes "is_draw r"
  shows "6 / 10 \<le> overall_confidence r" "overall_confidence r < 95 / 100"
  using assms by (simp_all add: overall_confidence_def is_draw_def)

lemma sample_question_not_blank: "\<not> list_all is_space ''BTC price?''"
  by (simp add: is_space_def)

lemma sample_question_assets: "extractAssetsFromQuery ''BTC price?'' = [''Bitcoin'']"
  by code_simp

lemma sample_question_price: "hasPriceQuestion ''BTC price?''"
  by code_simp

lemma test_environment_fields:
  "price_response (test_environment d c) k t = NetworkFailure (Error ''Failed to fetch'')"
  "history_response (test_environment d c) k t n = NetworkFailure (Error ''Failed to fetch'')"
  "random (test_environment d c) = test_draws d c"
  by (simp_all add: test_environment_def failing_environment_def)

lemma test_environment_percentChange:
  "percentChange (mockHistoricalData (test_environment d (9 / 10)) 0 ''Bitcoin'' 14) = 10"
  by (simp add: percentChange_def mockHistoricalData_def bitcoin_base_price
      test_environment_fields test_draws_def Let_def last_value_def first_value_def upt_rec)

lemma test_environment_feed:
  "trend (process_asset (test_environment d (9 / 10)) 0 ''Bitcoin'') = ''up''"
  "name (process_asset (test_environment d (9 / 10)) 0 ''Bitcoin'') = ''Bitcoin''"
  by (simp_all add: process_asset_def getTokenPrice_failure test_environment_fields
      getHistoricalPrices_failure [where e = "Error ''Failed to fetch''"]
      build_feed_def test_environment_percentChange trend_of_change_def
      length_mockHistoricalData bitcoin_display_name)

lemma test_environment_trend:
  "submitted_trend (test_environment d (9 / 10)) ''BTC price?'' = ''up''"
  by (simp add: submitted_trend_def requested_assets_def primaryAsset_def sample_question_assets
      getMarketDataFeeds_eq primaryAssetData_def test_environment_feed primary_trend_def
      str_or_def)

lemma test_draws_in_range: "draws_in_range (test_draws (1 / 2) (9 / 10))"
  "draws_in_range (test_draws (1 / 10) (9 / 10))"
  by (simp_all add: draws_in_range_def test_draws_def is_draw_def)

lemma submitted_decision_eq:
  assumes "\<not> list_all is_space q"
  shows "submitted_decision env q =
     Some (str_or (finalDecision (submitted_trend env q) (hasPriceQuestion q)
                     (random env DecisionDraw)) ''UNCERTAIN'')"
  by (simp add: submitted_decision_def handlePredictionSubmit_eq [OF assms]
      consensus_final_decision)

lemma submitted_confidence_eq:
  assumes "\<not> list_all is_space q"
  shows "submitted_confidence env q = Some (overall_confidence (random env ConfidenceDraw))"
  by (simp add: submitted_confidence_def handlePredictionSubmit_eq [OF assms]
      consensus_confidence)

lemma response_confidences_eq:
  assumes "verificationResult pd = fst (consensus t h a p tf rand)"
  shows "response_confidences pd =
     [overall_confidence (rand ConfidenceDraw) - 15 / 100 + rand (ResponseDraw 0) * (3 / 10),
      overall_confidence (rand ConfidenceDraw) - 2 / 10 + rand (ResponseDraw 1) * (25 / 100),
      overall_confidence (rand ConfidenceDraw) - 25 / 100 + rand (ResponseDraw 2) * (2 / 10),
      overall_confidence (rand ConfidenceDraw) - 5 / 100 + rand (ResponseDraw 3) * (15 / 100),
      overall_confidence (rand ConfidenceDraw) + rand (ResponseDraw 4) * (15 / 100)]"
  by (simp add: response_confidences_def assms consensus_verification
      generateVerificationDetails_def)

lemma response_confidences_record:
  "response_confidences
     \<lparr>question = q, verificationResult = fst (consensus t h a p tf rand),
      dataFeeds = fs, modelComparison = ms\<rparr> =
     [overall_confidence (rand ConfidenceDraw) - 15 / 100 + rand (ResponseDraw 0) * (3 / 10),
      overall_confidence (rand ConfidenceDraw) - 2 / 10 + rand (ResponseDraw 1) * (25 / 100),
      overall_confidence (rand ConfidenceDraw) - 25 / 100 + rand (ResponseDraw 2) * (2 / 10),
      overall_confidence (rand ConfidenceDraw) - 5 / 100 + rand (ResponseDraw 3) * (15 / 100),
      overall_confidence (rand ConfidenceDraw) + rand (ResponseDraw 4) * (15 / 100)]"
  by (rule response_confidences_eq) simp

lemma submitted_response_confidences_eq:
  assumes "\<not> list_all is_space q"
  shows "submitted_response_confidences env q =
     Some [overall_confidence (random env ConfidenceDraw) - 15 / 100 + random env (ResponseDraw 0) * (3 / 10),
      overall_confidence (random env ConfidenceDraw) - 2 / 10 + random env (ResponseDraw 1) * (25 / 100),
      overall_confidence (random env ConfidenceDraw) - 25 / 100 + random env (ResponseDraw 2) * (2 / 10),
      overall_confidence (random env ConfidenceDraw) - 5 / 100 + random env (ResponseDraw 3) * (15 / 100),
      overall_confidence (random env ConfidenceDraw) + random env (ResponseDraw 4) * (15 / 100)]"
  by (simp add: submitted_response_confidences_def handlePredictionSubmit_eq [OF assms]
      response_confidences_record)

lemma handlePredictionSubmit_SomeD:
  assumes "handlePredictionSubmit env q = Some pd"
  shows "\<not> list_all is_space q"
  using assms by (auto simp: handlePredictionSubmit_def split: if_splits)

lemma mockHistoricalData_random:
  assumes "\<And>k i. rand' (HistoryDraw k i) = random env (HistoryDraw k i)"
  shows "mockHistoricalData (env\<lparr>random := rand'\<rparr>) k a days = mockHistoricalData env k a days"
  by (simp add: mockHistoricalData_def assms)

lemma createFallbackDataFeed_random:
  assumes "\<And>k i. rand' (FallbackDraw k i) = random env (FallbackDraw k i)"
  shows "createFallbackDataFeed (env\<lparr>random := rand'\<rparr>) k a = createFallbackDataFeed env k a"
  by (simp add: createFallbackDataFeed_def assms)

lemma process_asset_random:
  assumes "\<And>k i. rand' (HistoryDraw k i) = random env (HistoryDraw k i)"
    and "\<And>k i. rand' (FallbackDraw k i) = random env (FallbackDraw k i)"
  shows "process_asset (env\<lparr>random := rand'\<rparr>) k a = process_asset env k a"
proof -
  have "fetchHistoricalPrices (env\<lparr>random := rand'\<rparr>) r a = fetchHistoricalPrices env r a" for r
    by (simp add: fetchHistoricalPrices_def split: response.splits option.splits)
  then have "getHistoricalPrices (env\<lparr>random := rand'\<rparr>) k a 14 = getHistoricalPrices env k a 14"
    by (simp add: getHistoricalPrices_def mockHistoricalData_random [of rand', OF assms(1)]
        split: sum.splits)
  moreover have "build_feed (env\<lparr>random := rand'\<rparr>) k a p h = build_feed env k a p h" for p h
    by (simp add: build_feed_def createFallbackDataFeed_random [of rand', OF assms(2)]
        split: sum.splits)
  ultimately show ?thesis
    by (simp add: process_asset_def)
qed

lemma submitted_trend_random:
  assumes "\<forall>site. \<not> confidence_site site \<longrightarrow> rand' site = random env site"
  shows "submitted_trend (env\<lparr>random := rand'\<rparr>) q = submitted_trend env q"
proof -
  have "process_asset (env\<lparr>random := rand'\<rparr>) k a = process_asset env k a" for k a
    using assms by (intro process_asset_random) simp_all
  then show ?thesis
    by (simp add: submitted_trend_def getMarketDataFeeds_eq)
qed

section \<open>Claims on the consensus\<close>

text \<open>
  C1, as stated, fails: two submissions of the same question whose overall confidence and
  per-model confidences are equal, and so have the same mean, get different labels.
\<close>

theorem decision_differs_at_equal_confidence:
  "submitted_decision (test_environment (1 / 2) (9 / 10)) ''BTC price?'' = Some ''LIKELY''
   \<and> submitted_decision (test_environment (1 / 10) (9 / 10)) ''BTC price?'' = Some ''HIGHLY LIKELY''
   \<and> submitted_confidence (test_environment (1 / 2) (9 / 10)) ''BTC price?'' = Some (183 / 200)
   \<and> submitted_confidence (test_environment (1 / 10) (9 / 10)) ''BTC price?'' = Some (183 / 200)
   \<and> submitted_response_confidences (test_environment (1 / 2) (9 / 10)) ''BTC price?''
       = Some [207 / 200, 47 / 50, 169 / 200, 1, 21 / 20]
   \<and> submitted_response_confidences (test_environment (1 / 10) (9 / 10)) ''BTC price?''
       = Some [207 / 200, 47 / 50, 169 / 200, 1, 21 / 20]"
  by (simp add: submitted_decision_eq [OF sample_question_not_blank] submitted_confidence_eq [OF sample_question_not_blank]
      submitted_response_confidences_eq [OF sample_question_not_blank] test_environment_trend sample_question_price
      test_environment_fields test_draws_def finalDecision_def str_or_def overall_confidence_def)

text \<open>
  C1, amended. The label the handler stores is chosen from the trend of the primary asset's
  feed, from whether the question asks about a price, and from one random draw: for an
  upward trend and a price question LIKELY when the draw is above 0.3 and HIGHLY LIKELY
  otherwise; for a downward trend and a price question UNLIKELY or SOMEWHAT LIKELY in the
  same way; otherwise the entry of the list of five labels picked by the draw. The
  confidence is 0.6 plus 0.35 times a draw of its own, and the label does not depend on any
  draw that goes into a confidence.
\<close>

theorem final_decision_from_trend_and_draw:
  assumes "handlePredictionSubmit env q = Some pd"
    and "is_draw (random env DecisionDraw)"
  shows "final_decision (verificationResult pd) =
           (if submitted_trend env q = ''up'' \<and> hasPriceQuestion q then
              (if random env DecisionDraw > 3 / 10 then ''LIKELY'' else ''HIGHLY LIKELY'')
            else if submitted_trend env q = ''down'' \<and> hasPriceQuestion q then
              (if random env DecisionDraw > 3 / 10 then ''UNLIKELY'' else ''SOMEWHAT LIKELY'')
            else decisions ! nat \<lfloor>random env DecisionDraw * 5\<rfloor>)
         \<and> confidence (verificationResult pd) = 6 / 10 + random env ConfidenceDraw * (35 / 100)
         \<and> (\<forall>rand'. (\<forall>site. \<not> confidence_site site \<longrightarrow> rand' site = random env site) \<longrightarrow>
               submitted_decision (env\<lparr>random := rand'\<rparr>) q
                 = Some (final_decision (verificationResult pd)))"
proof -
  have nb: "\<not> list_all is_space q"
    using assms(1) by (rule handlePredictionSubmit_SomeD)
  have sd: "submitted_decision env q = Some (final_decision (verificationResult pd))"
    by (simp add: submitted_decision_def assms(1))
  have sc: "submitted_confidence env q = Some (confidence (verificationResult pd))"
    by (simp add: submitted_confidence_def assms(1))
  let ?r = "random env DecisionDraw"
  have fd: "final_decision (verificationResult pd) =
      str_or (finalDecision (submitted_trend env q) (hasPriceQuestion q) ?r) ''UNCERTAIN''"
    using sd submitted_decision_eq [OF nb, of env] by simp
  have "0 \<le> ?r * 5" "?r * 5 < 5"
    using assms(2) by (simp_all add: is_draw_def)
  then have "0 \<le> \<lfloor>?r * 5\<rfloor>" "\<lfloor>?r * 5\<rfloor> < 5"
    by (simp_all add: floor_less_iff)
  then have i: "0 \<le> \<lfloor>?r * 5\<rfloor>" "nat \<lfloor>?r * 5\<rfloor> < 5"
    by linarith+
  have len: "length decisions = 5"
    by (simp add: decisions_def)
  have ne: "decisions ! nat \<lfloor>?r * 5\<rfloor> \<noteq> []"
    using i(2) unfolding decisions_def
    by (auto simp: less_Suc_eq numeral_eq_Suc)
  have 1: "final_decision (verificationResult pd) =
           (if submitted_trend env q = ''up'' \<and> hasPriceQuestion q then
              (if ?r > 3 / 10 then ''LIKELY'' else ''HIGHLY LIKELY'')
            else if submitted_trend env q = ''down'' \<and> hasPriceQuestion q then
              (if ?r > 3 / 10 then ''UNLIKELY'' else ''SOMEWHAT LIKELY'')
            else decisions ! nat \<lfloor>?r * 5\<rfloor>)"
    unfolding fd using i ne
    by (simp add: finalDecision_def str_or_def array_get_def js_floor_def len)
  have 2: "confidence (verificationResult pd) = 6 / 10 + random env ConfidenceDraw * (35 / 100)"
    using sc submitted_confidence_eq [OF nb, of env] by (simp add: overall_confidence_def)
  have 3: "submitted_decision (env\<lparr>random := rand'\<rparr>) q
             = Some (final_decision (verificationResult pd))"
    if "\<forall>site. \<not> confidence_site site \<longrightarrow> rand' site = random env site" for rand'
  proof -
    have "rand' DecisionDraw = ?r"
      using that by simp
    then show ?thesis
      by (simp add: submitted_decision_eq [OF nb] submitted_trend_random [OF that] fd)
  qed
  show ?thesis
    using 1 2 3 by blast
qed

theorem final_decision_from_trend_and_draw_witness:
  "\<exists>pd. handlePredictionSubmit (test_environment (1 / 2) (9 / 10)) ''BTC price?'' = Some pd
     \<and> is_draw (random (test_environment (1 / 2) (9 / 10)) DecisionDraw)
     \<and> final_decision (verificationResult pd) = ''LIKELY''
     \<and> confidence (verificationResult pd) = 183 / 200
     \<and> submitted_decision
          ((test_environment (1 / 2) (9 / 10))
             \<lparr>random := (\<lambda>site. if confidence_site site then 1 / 10
                                 else random (test_environment (1 / 2) (9 / 10)) site)\<rparr>)
          ''BTC price?'' = Some ''LIKELY''"
proof -
  let ?env = "test_environment (1 / 2) (9 / 10)"
  let ?rand = "\<lambda>site. if confidence_site site then 1 / 10 else random ?env site"
  obtain pd where pd: "handlePredictionSubmit ?env ''BTC price?'' = Some pd"
    using handlePredictionSubmit_eq [OF sample_question_not_blank] by blast
  have r: "random ?env DecisionDraw = 1 / 2" "random ?env ConfidenceDraw = 9 / 10"
    by (simp_all add: test_environment_fields test_draws_def)
  have d: "is_draw (random ?env DecisionDraw)"
    by (simp add: r is_draw_def)
  note t = final_decision_from_trend_and_draw [OF pd d]
  have 1: "final_decision (verificationResult pd) = ''LIKELY''"
    using t by (simp add: test_environment_trend sample_question_price r)
  have 2: "confidence (verificationResult pd) = 183 / 200"
    using t by (simp add: r)
  have "\<forall>site. \<not> confidence_site site \<longrightarrow> ?rand site = random ?env site"
    by simp
  then have 3: "submitted_decision (?env\<lparr>random := ?rand\<rparr>) ''BTC price?'' = Some ''LIKELY''"
    using t [THEN conjunct2, THEN conjunct2, rule_format, of ?rand] 1 by simp
  show ?thesis
    by (rule exI [of _ pd]) (simp only: pd d 1 2 3 simp_thms)
qed

text \<open>
  The confidences of a stored result: the overall confidence lies in [0.6, 0.95), and each
  per-model confidence of \<open>model_responses\<close> is the overall confidence plus an offset drawn
  in a fixed window (\<open>generateVerificationDetails\<close> does not clamp the sum).
\<close>

lemma confidence_ranges:
  assumes "handlePredictionSubmit env q = Some pd"
    and "draws_in_range (random env)"
  shows "6 / 10 \<le> confidence (verificationResult pd)
         \<and> confidence (verificationResult pd) < 95 / 100
         \<and> (\<exists>d g m w l. response_confidences pd = [d, g, m, w, l]
               \<and> confidence (verificationResult pd) - 15 / 100 \<le> d
               \<and> d < confidence (verificationResult pd) + 15 / 100
               \<and> confidence (verificationResult pd) - 2 / 10 \<le> g
               \<and> g < confidence (verificationResult pd) + 5 / 100
               \<and> confidence (verificationResult pd) - 25 / 100 \<le> m
               \<and> m < confidence (verificationResult pd) - 5 / 100
               \<and> confidence (verificationResult pd) - 5 / 100 \<le> w
               \<and> w < confidence (verificationResult pd) + 1 / 10
               \<and> confidence (verificationResult pd) \<le> l
               \<and> l < confidence (verificationResult pd) + 15 / 100
               \<and> 0 \<le> g \<and> g \<le> 1 \<and> 0 \<le> m \<and> m \<le> 1)
         \<and> list_all (\<lambda>c. 35 / 100 \<le> c \<and> c < 11 / 10) (response_confidences pd)"
proof -
  have nb: "\<not> list_all is_space q"
    using assms(1) by (rule handlePredictionSubmit_SomeD)
  let ?c = "overall_confidence (random env ConfidenceDraw)"
  have c: "confidence (verificationResult pd) = ?c"
    using submitted_confidence_eq [OF nb, of env]
    by (simp add: submitted_confidence_def assms(1))
  have rc: "response_confidences pd =
     [?c - 15 / 100 + random env (ResponseDraw 0) * (3 / 10),
      ?c - 2 / 10 + random env (ResponseDraw 1) * (25 / 100),
      ?c - 25 / 100 + random env (ResponseDraw 2) * (2 / 10),
      ?c - 5 / 100 + random env (ResponseDraw 3) * (15 / 100),
      ?c + random env (ResponseDraw 4) * (15 / 100)]"
    using submitted_response_confidences_eq [OF nb, of env]
    by (simp add: submitted_response_confidences_def assms(1))
  have d: "is_draw (random env s)" for s
    using assms(2) by (simp add: draws_in_range_def)
  have b: "6 / 10 \<le> ?c" "?c < 95 / 100"
    using overall_confidence_bounds [OF d] by simp_all
  have r: "0 \<le> random env (ResponseDraw n)" "random env (ResponseDraw n) < 1" for n
    using d [of "ResponseDraw n"] by (simp_all add: is_draw_def)
  show ?thesis
    unfolding c rc using b r [of 0] r [of 1] r [of 2] r [of 3] r [of 4]
    by simp
qed

text \<open>
  C7. Every confidence produced by the prediction-submit handler, the overall one and each
  per-model one of \<open>model_responses\<close>, lies in [0,1]. The code does not keep the per-model
  confidences there: with every draw at 0.99 the overall confidence is 0.9465, and the
  confidences of DeepSeek R1 Zero, QwQ 32B and Llama 3.3 70B are 1.0935, 1.045 and 1.095.
\<close>

theorem per_model_confidence_above_one:
  "draws_in_range (random (test_environment (99 / 100) (99 / 100)))
   \<and> submitted_confidence (test_environment (99 / 100) (99 / 100)) ''BTC price?''
       = Some (1893 / 2000)
   \<and> submitted_response_confidences (test_environment (99 / 100) (99 / 100)) ''BTC price?''
       = Some [2187 / 2000, 497 / 500, 1789 / 2000, 209 / 200, 219 / 200]
   \<and> (1 :: real) < 2187 / 2000 \<and> (1 :: real) < 209 / 200 \<and> (1 :: real) < 219 / 200"
  by (simp add: submitted_response_confidences_eq [OF sample_question_not_blank]
      submitted_confidence_eq [OF sample_question_not_blank]
      test_environment_fields test_draws_def overall_confidence_def draws_in_range_def
      is_draw_def)

text \<open>
  C8. Every decision label of a stored result is one of HIGHLY LIKELY, LIKELY, SOMEWHAT
  LIKELY, UNCERTAIN, SOMEWHAT UNLIKELY and UNLIKELY: the final decision, the prediction of
  each model of the model comparison, and the decision of each model of \<open>model_responses\<close>
  (none of them is left undefined).
\<close>

theorem decision_labels_fixed_set:
  assumes "handlePredictionSubmit env q = Some pd"
    and "draws_in_range (random env)"
  shows "final_decision (verificationResult pd) \<in> set decision_labels
         \<and> list_all is_label (map prediction (modelComparison pd))
         \<and> list_all is_label (response_decisions pd)"
proof -
  have nb: "\<not> list_all is_space q"
    using assms(1) by (rule handlePredictionSubmit_SomeD)
  have pd: "pd = \<lparr>question = q,
            verificationResult =
              fst (consensus (submitted_trend env q) (hasPriceQuestion q) (primaryAsset q)
                     (currentPrice (primaryAssetData (getMarketDataFeeds env (requested_assets q))
                        (primaryAsset q)))
                     (find_timeframe q) (random env)),
            dataFeeds = getMarketDataFeeds env (requested_assets q),
            modelComparison =
              snd (consensus (submitted_trend env q) (hasPriceQuestion q) (primaryAsset q)
                     (currentPrice (primaryAssetData (getMarketDataFeeds env (requested_assets q))
                        (primaryAsset q)))
                     (find_timeframe q) (random env))\<rparr>"
    using assms(1) handlePredictionSubmit_eq [OF nb, of env] by simp
  have vr: "verificationResult pd =
              fst (consensus (submitted_trend env q) (hasPriceQuestion q) (primaryAsset q)
                     (currentPrice (primaryAssetData (getMarketDataFeeds env (requested_assets q))
                        (primaryAsset q)))
                     (find_timeframe q) (random env))"
    and mc: "modelComparison pd =
              snd (consensus (submitted_trend env q) (hasPriceQuestion q) (primaryAsset q)
                     (currentPrice (primaryAssetData (getMarketDataFeeds env (requested_assets q))
                        (primaryAsset q)))
                     (find_timeframe q) (random env))"
    by (simp_all add: pd)
  have l: "is_label (finalDecision (submitted_trend env q) (hasPriceQuestion q)
                       (random env DecisionDraw))"
    using assms(2) by (intro finalDecision_label) (simp add: draws_in_range_def)
  have 1: "final_decision (verificationResult pd) \<in> set decision_labels"
    unfolding vr consensus_final_decision using str_or_label [OF l] by blast
  have 2: "list_all is_label (map prediction (modelComparison pd))"
    unfolding mc consensus_comparison by (rule comparison_labels)
  have 3: "list_all is_label (response_decisions pd)"
    unfolding response_decisions_def vr consensus_verification
    by (rule verification_decisions_labels [OF l])
  show ?thesis
    using 1 2 3 by simp
qed

theorem decision_labels_fixed_set_witness:
  "\<exists>pd. handlePredictionSubmit (test_environment (1 / 10) (9 / 10)) ''BTC price?'' = Some pd
     \<and> draws_in_range (random (test_environment (1 / 10) (9 / 10)))
     \<and> final_decision (verificationResult pd) \<in> set decision_labels
     \<and> list_all is_label (map prediction (modelComparison pd))
     \<and> list_all is_label (response_decisions pd)"
proof -
  let ?env = "test_environment (1 / 10) (9 / 10)"
  obtain pd where pd: "handlePredictionSubmit ?env ''BTC price?'' = Some pd"
    using handlePredictionSubmit_eq [OF sample_question_not_blank] by blast
  have d: "draws_in_range (random ?env)"
    by (simp add: test_environment_fields test_draws_in_range)
  note t = decision_labels_fixed_set [OF pd d]
  show ?thesis
    by (rule exI [of _ pd]) (simp only: pd d t simp_thms)
qed


end
